theory Spec2Isabelle
  imports Main "HOL-Library.Word"
begin

section \<open>Values shared by the modules\<close>

text \<open>
  A JavaScript string is a sequence of 16-bit code units.  Emoji input is kept in that
  form (\<open>utf16\<close>), because \<open>codePointAt\<close>, \<open>Array.from\<close> and
  \<open>String.fromCodePoint\<close> are defined on code units.  Codepoint strings and header
  values are text of the ASCII range, file contents are bytes; both are HOL strings.
\<close>

type_synonym utf16 = "16 word list"

text \<open>
  The message of an error.  The literals of the source are Chinese text; each constructor
  stands for one literal:
  \<^item> \<open>Txt_EmptyBody\<close>: "the server response data is empty" (index.ts line 92);
  \<^item> \<open>Txt_ServerAbnormal status\<close>: "abnormal server response: status" (index.ts line 107);
  \<^item> \<open>Txt_Timeout\<close>: "download timed out" (index.ts line 111);
  \<^item> \<open>Txt_DownloadFailed\<close>: "downloading the metadata file failed" (index.ts line 127);
  \<^item> \<open>Txt_LoadFailed m\<close>: "loading the metadata failed: m" (index.ts line 140);
  \<^item> \<open>Txt_NotLoaded\<close>: "the metadata is not loaded" (utils.ts lines 20 and 25);
  \<^item> \<open>Txt_Host s\<close>: the message of an error raised outside the plugin (Node, the
    host framework, the JavaScript runtime).
\<close>

datatype msg =
    Txt_EmptyBody
  | Txt_ServerAbnormal nat
  | Txt_Timeout
  | Txt_DownloadFailed
  | Txt_LoadFailed msg
  | Txt_NotLoaded
  | Txt_Host string

text \<open>
  A thrown value, with the three properties the source reads from it: \<open>message\<close>,
  \<open>response\<close> (status and status text, present on an HTTP error of the host) and
  \<open>code\<close> (present on a transport error); the fields carry the prefix \<open>e_\<close>.
\<close>

record js_error =
  e_message :: msg
  e_response :: "(nat \<times> string) option"
  e_code :: "string option"

definition new_Error :: "msg \<Rightarrow> js_error" where
  "new_Error m = \<lparr>e_message = m, e_response = None, e_code = None\<rparr>"

definition TypeError :: js_error where
  "TypeError = new_Error (Txt_Host ''TypeError'')"

definition RangeError :: js_error where
  "RangeError = new_Error (Txt_Host ''RangeError: Invalid code point'')"

section \<open>utils.ts: the codepoint encoder\<close>

text \<open>\<open>String.prototype.codePointAt\<close>: \<open>None\<close> is \<open>undefined\<close>.\<close>

definition codePointAt :: "utf16 \<Rightarrow> nat \<Rightarrow> nat option" where
  "codePointAt s pos =
     (if pos < length s then
        (let first = unat (s ! pos) in
         if first < 0xD800 \<or> 0xDBFF < first \<or> pos + 1 = length s then Some first
         else
           (let second = unat (s ! (pos + 1)) in
            if second < 0xDC00 \<or> 0xDFFF < second then Some first
            else Some ((first - 0xD800) * 0x400 + (second - 0xDC00) + 0x10000)))
      else None)"

text \<open>\<open>Number.prototype.toString(16)\<close> on a non-negative integer.\<close>

definition hexDigit :: "nat \<Rightarrow> char" where
  "hexDigit d = ''0123456789abcdef'' ! d"

function toString16 :: "nat \<Rightarrow> string" where
  "toString16 n = (if n < 16 then [hexDigit n] else toString16 (n div 16) @ [hexDigit (n mod 16)])"
  by pat_completeness auto
termination
  by (relation "measure id") auto

text \<open>\<open>Array.prototype.join\<close>.\<close>

fun join :: "string \<Rightarrow> string list \<Rightarrow> string" where
  "join sep [] = []"
| "join sep [x] = x"
| "join sep (x # y # ys) = x @ sep @ join sep (y # ys)"

text \<open>
  \<open>String.prototype.toLowerCase\<close> on code units below 256: the ASCII capitals and
  the Latin-1 capitals (all of 0xC0..0xDE but the multiplication sign 0xD7) move by 32.
\<close>

definition lowerChar :: "char \<Rightarrow> char" where
  "lowerChar c =
     (let n = (of_char c :: nat) in
      if (65 \<le> n \<and> n \<le> 90) \<or> (192 \<le> n \<and> n \<le> 222 \<and> n \<noteq> 215) then char_of (n + 32) else c)"

definition toLowerCase :: "string \<Rightarrow> string" where
  "toLowerCase s = map lowerChar s"

text \<open>
  The loop of \<open>getEmojiCodepoint\<close> (utils.ts lines 11 to 15), with the index \<open>i\<close>
  and the array \<open>codePoints\<close> as arguments.  \<open>code.toString(16)\<close> on
  \<open>undefined\<close> would be a TypeError.
\<close>

function getEmojiCodepoint_loop :: "utf16 \<Rightarrow> nat \<Rightarrow> string list \<Rightarrow> js_error + string list" where
  "getEmojiCodepoint_loop emoji i codePoints =
     (if i < length emoji then
        (case codePointAt emoji i of
           None \<Rightarrow> Inl TypeError
         | Some code \<Rightarrow>
             getEmojiCodepoint_loop emoji ((if code > 0xffff then i + 1 else i) + 1)
               (codePoints @ [toString16 code]))
      else Inr codePoints)"
  by pat_completeness auto
termination
  by (relation "measure (\<lambda>(emoji, i, codePoints). length emoji - i)") auto

definition getEmojiCodepoint :: "utf16 \<Rightarrow> js_error + string" where
  "getEmojiCodepoint emoji =
     (case getEmojiCodepoint_loop emoji 0 [] of
        Inl e \<Rightarrow> Inl e
      | Inr codePoints \<Rightarrow> Inr (toLowerCase (join ''-'' codePoints)))"

section \<open>utils.ts: the inverse, toPrintableEmoji\<close>

text \<open>\<open>String.prototype.split\<close> with a one-character separator.\<close>

fun split :: "char \<Rightarrow> string \<Rightarrow> string list" where
  "split sep [] = [[]]"
| "split sep (c # cs) =
     (if c = sep then [] # split sep cs
      else (case split sep cs of [] \<Rightarrow> [[c]] | p # ps \<Rightarrow> (c # p) # ps))"

text \<open>
  \<open>parseInt(p, 16)\<close>: leading white space is skipped, then an optional sign, then an
  optional \<open>0x\<close> or \<open>0X\<close>, then the longest run of hexadecimal digits; no digit
  at all gives \<open>NaN\<close>, which is \<open>None\<close>.
\<close>

definition isStrWhiteSpaceChar :: "char \<Rightarrow> bool" where
  "isStrWhiteSpaceChar c = ((of_char c :: nat) \<in> {9, 10, 11, 12, 13, 32, 160})"

definition hexValue :: "char \<Rightarrow> nat option" where
  "hexValue c =
     (let n = (of_char c :: nat) in
      if 48 \<le> n \<and> n \<le> 57 then Some (n - 48)
      else if 97 \<le> n \<and> n \<le> 102 then Some (n - 87)
      else if 65 \<le> n \<and> n \<le> 70 then Some (n - 55)
      else None)"

definition parseInt16 :: "string \<Rightarrow> int option" where
  "parseInt16 inputString =
     (let S = dropWhile isStrWhiteSpaceChar inputString;
          sign = (case S of c # _ \<Rightarrow> if c = CHR ''-'' then - 1 else 1 | [] \<Rightarrow> (1 :: int));
          S1 = (case S of c # r \<Rightarrow> if c = CHR ''-'' \<or> c = CHR ''+'' then r else S | [] \<Rightarrow> S);
          S2 = (case S1 of
                  a # b # r \<Rightarrow> if a = CHR ''0'' \<and> (b = CHR ''x'' \<or> b = CHR ''X'') then r else S1
                | _ \<Rightarrow> S1);
          Z = takeWhile (\<lambda>c. hexValue c \<noteq> None) S2
      in if Z = [] then None
         else Some (sign * int (foldl (\<lambda>acc c. case hexValue c of Some d \<Rightarrow> acc * 16 + d | None \<Rightarrow> acc) 0 Z)))"

text \<open>\<open>String.fromCodePoint\<close>: a RangeError on \<open>NaN\<close> and outside 0..0x10FFFF.\<close>

definition UTF16EncodeCodePoint :: "nat \<Rightarrow> utf16" where
  "UTF16EncodeCodePoint cp =
     (if cp \<le> 0xFFFF then [of_nat cp]
      else [of_nat ((cp - 0x10000) div 0x400 + 0xD800), of_nat ((cp - 0x10000) mod 0x400 + 0xDC00)])"

fun fromCodePoint :: "int option list \<Rightarrow> js_error + utf16" where
  "fromCodePoint [] = Inr []"
| "fromCodePoint (None # rest) = Inl RangeError"
| "fromCodePoint (Some n # rest) =
     (if n < 0 \<or> 0x10FFFF < n then Inl RangeError
      else (case fromCodePoint rest of
              Inl e \<Rightarrow> Inl e
            | Inr s \<Rightarrow> Inr (UTF16EncodeCodePoint (nat n) @ s)))"

definition toPrintableEmoji :: "string \<Rightarrow> js_error + utf16" where
  "toPrintableEmoji emojiCodepoint = fromCodePoint (map parseInt16 (split CHR ''-'' emojiCodepoint))"

section \<open>utils.ts: the metadata store\<close>

text \<open>
  Modelled from the spec: \<open>types.ts\<close> (the interfaces \<open>EmojiMetadata\<close>,
  \<open>EmojiData\<close> and the combination entries) is not among the sources.  The spec's data
  model gives a document the fields \<open>knownSupportedEmoji\<close> and \<open>data\<close>, an entry
  the field \<open>combinations\<close>, and a combination \<open>gStaticUrl\<close> and
  \<open>isLatest\<close>; the remaining descriptive fields are not read by the plugin.  An
  entry and a combination are taken as the interfaces type them.
\<close>

record combination =
  gStaticUrl :: string
  isLatest :: bool

record emoji_data =
  combinations :: "string \<Rightarrow> combination list option"

text \<open>
  A truthy value, as utils.ts reads it.  \<open>knownSupportedEmoji\<close> is that property,
  \<open>None\<close> being \<open>undefined\<close>.  \<open>data\<close> is what indexing the property
  \<open>data\<close> gives: \<open>None\<close> when the property is \<open>undefined\<close> or
  \<open>null\<close>, where \<open>emojiMetadata.data[emojiCodepoint]\<close> is a TypeError, and
  otherwise the read of a key, own or inherited, with \<open>None\<close> for \<open>undefined\<close>.
  A value of the interface \<open>EmojiMetadata\<close> has both properties.
\<close>

record emoji_metadata =
  knownSupportedEmoji :: "string list option"
  data :: "(string \<Rightarrow> emoji_data option) option"

text \<open>
  What \<open>setEmojiMetadata\<close> can be handed when the program runs.  The annotation
  \<open>EmojiMetadata\<close> of its parameter is erased, and its one caller (index.ts lines
  136 and 137) passes on whatever \<open>JSON.parse\<close> made of the file.
  \<open>Falsy_value\<close> stands for \<open>null\<close>, \<open>undefined\<close>, \<open>false\<close>,
  \<open>0\<close> and the empty string; every other value is truthy.
\<close>

datatype metadata_value = Falsy_value | Truthy_value emoji_metadata

text \<open>
  The module variable \<open>emojiMetadata\<close> (utils.ts line 3): \<open>None\<close> until it is
  assigned, then the value assigned last.  \<open>!emojiMetadata\<close> holds when it was
  never assigned and when the value it holds is falsy.
\<close>

type_synonym store = "metadata_value option"

definition setEmojiMetadata :: "metadata_value \<Rightarrow> store \<Rightarrow> store" where
  "setEmojiMetadata metadata emojiMetadata = Some metadata"

definition getEmojiData :: "store \<Rightarrow> string \<Rightarrow> js_error + emoji_data option" where
  "getEmojiData emojiMetadata emojiCodepoint =
     (case emojiMetadata of
        None \<Rightarrow> Inl (new_Error Txt_NotLoaded)
      | Some Falsy_value \<Rightarrow> Inl (new_Error Txt_NotLoaded)
      | Some (Truthy_value m) \<Rightarrow>
          (case data m of
             None \<Rightarrow> Inl TypeError
           | Some entries \<Rightarrow> Inr (entries emojiCodepoint)))"

definition getSupportedEmoji :: "store \<Rightarrow> js_error + string list option" where
  "getSupportedEmoji emojiMetadata =
     (case emojiMetadata of
        None \<Rightarrow> Inl (new_Error Txt_NotLoaded)
      | Some Falsy_value \<Rightarrow> Inl (new_Error Txt_NotLoaded)
      | Some (Truthy_value m) \<Rightarrow> Inr (knownSupportedEmoji m))"

section \<open>index.ts: the action of the emoji command\<close>

text \<open>\<open>String.prototype.trim\<close>: white space and line terminators go, at both ends.\<close>

definition isTrimmed :: "16 word \<Rightarrow> bool" where
  "isTrimmed u =
     (unat u \<in> {0x9, 0xA, 0xB, 0xC, 0xD, 0x20, 0xA0, 0x1680, 0x2028, 0x2029, 0x202F, 0x205F, 0x3000, 0xFEFF}
      \<or> (0x2000 \<le> unat u \<and> unat u \<le> 0x200A))"

definition trim :: "utf16 \<Rightarrow> utf16" where
  "trim s = rev (dropWhile isTrimmed (rev (dropWhile isTrimmed s)))"

definition isLeadingSurrogate :: "16 word \<Rightarrow> bool" where
  "isLeadingSurrogate u = (0xD800 \<le> unat u \<and> unat u \<le> 0xDBFF)"

definition isTrailingSurrogate :: "16 word \<Rightarrow> bool" where
  "isTrailingSurrogate u = (0xDC00 \<le> unat u \<and> unat u \<le> 0xDFFF)"

text \<open>
  \<open>Array.from\<close> on a string walks it with the string iterator: a leading surrogate
  followed by a trailing one is one element, every other code unit is an element alone.
\<close>

fun Array_from :: "utf16 \<Rightarrow> utf16 list" where
  "Array_from [] = []"
| "Array_from [u] = [[u]]"
| "Array_from (u # v # rest) =
     (if isLeadingSurrogate u \<and> isTrailingSurrogate v then [u, v] # Array_from rest
      else [u] # Array_from (v # rest))"

text \<open>
  What the action returns (index.ts lines 172 to 190):
  \<^item> \<open>Reply_EnterTwo\<close>: the text "please enter two emoji" (line 172);
  \<^item> \<open>Reply_ExactlyTwo\<close>: the text "please enter exactly two emoji" (line 174);
  \<^item> \<open>Reply_NotFound first second\<close>: the text "no combination of first and second found";
  \<^item> \<open>Reply_Image u\<close>: \<open>segment.image(u)\<close>;
  \<^item> \<open>Reply_Failed m\<close>: the text "processing failed: m" of the catch block.
  Beside the reply the model returns the calls into \<open>utils\<close> that the action made, in
  order, so that "before any encoding or store query" can be stated.
\<close>

datatype reply =
    Reply_EnterTwo
  | Reply_ExactlyTwo
  | Reply_NotFound utf16 utf16
  | Reply_Image string
  | Reply_Failed msg

datatype util_call =
    Call_getEmojiCodepoint utf16
  | Call_getEmojiData string

text \<open>
  The \<open>try\<close> block with its \<open>catch\<close> (lines 177 to 191).
  \<open>data1?.combinations?.[cp2]\<close> is \<open>None\<close> when the entry or the partner is
  missing; \<open>!combinations?.length\<close> holds for a missing and for an empty list.
\<close>

definition emoji_action_try :: "store \<Rightarrow> utf16 \<Rightarrow> utf16 \<Rightarrow> reply \<times> util_call list" where
  "emoji_action_try emojiMetadata first second =
     (case getEmojiCodepoint first of
        Inl error \<Rightarrow> (Reply_Failed (e_message error), [Call_getEmojiCodepoint first])
      | Inr cp1 \<Rightarrow>
          (case getEmojiCodepoint second of
             Inl error \<Rightarrow>
               (Reply_Failed (e_message error),
                [Call_getEmojiCodepoint first, Call_getEmojiCodepoint second])
           | Inr cp2 \<Rightarrow>
               (let calls = [Call_getEmojiCodepoint first, Call_getEmojiCodepoint second,
                             Call_getEmojiData cp1]
                in case getEmojiData emojiMetadata cp1 of
                     Inl error \<Rightarrow> (Reply_Failed (e_message error), calls)
                   | Inr data1 \<Rightarrow>
                       (case (case data1 of None \<Rightarrow> None | Some d \<Rightarrow> combinations d cp2) of
                          None \<Rightarrow> (Reply_NotFound first second, calls)
                        | Some [] \<Rightarrow> (Reply_NotFound first second, calls)
                        | Some (c0 # cs) \<Rightarrow>
                            (let combo = (case find isLatest (c0 # cs) of
                                            Some c \<Rightarrow> c
                                          | None \<Rightarrow> c0)
                             in (Reply_Image (gStaticUrl combo), calls))))))"

text \<open>
  Lines 172 to 176.  \<open>emojis\<close> is \<open>None\<close> when the command came without its
  argument; the empty string is falsy as well.  The test \<open>emojiArr.length !== 2\<close>
  and the destructuring of line 176 are one \<open>case\<close>.
\<close>

definition emoji_action :: "store \<Rightarrow> utf16 option \<Rightarrow> reply \<times> util_call list" where
  "emoji_action emojiMetadata emojis =
     (case emojis of
        None \<Rightarrow> (Reply_EnterTwo, [])
      | Some e \<Rightarrow>
          if e = [] then (Reply_EnterTwo, [])
          else
            (case Array_from (trim e) of
               [first, second] \<Rightarrow> emoji_action_try emojiMetadata first second
             | _ \<Rightarrow> (Reply_ExactlyTwo, [])))"

section \<open>The host: disk, network and JSON\<close>

text \<open>
  \<open>getMetadataPath\<close> and \<open>getMetadataCachePath\<close> name the two files the plugin
  keeps under its data directory, \<open>metadata.json\<close> and \<open>metadata.cache.json\<close>.
\<close>

datatype path = MetadataPath | CachePath

text \<open>The interface \<open>CacheMeta\<close> (index.ts lines 31 to 34).\<close>

record cache_meta =
  etag :: "string option"
  lastModified :: "string option"

text \<open>
  What \<open>JSON.parse\<close> makes of the descriptor file: a SyntaxError, \<open>null\<close> (a
  property access on it is a TypeError), or a value whose properties can be read.
\<close>

datatype cache_json = Json_SyntaxError | Json_null | Json_value cache_meta

text \<open>
  The headers of a response.  index.ts reads them by property access
  (\<open>headers['etag']\<close>), the second source file by the method \<open>headers.get('etag')\<close>;
  what each access returns is the host's matter, so the value carries both.
\<close>

record headers_obj =
  by_index :: "string \<Rightarrow> string option"
  by_get :: "string \<Rightarrow> string option"

text \<open>
  The object the \<open>decoder\<close> builds (index.ts lines 48 to 56); \<open>response_data\<close> is
  its field \<open>data\<close>, the bytes of the body.
\<close>

record response =
  url :: string
  response_data :: "string option"
  status :: nat
  statusText :: string
  headers :: headers_obj

record request =
  req_url :: string
  req_headers :: "(string \<times> string) list"
  req_timeout :: nat

record config =
  autoUpdate :: bool
  updateInterval :: nat
  metadataUrl :: string
  timeout :: nat

text \<open>
  Everything outside the plugin that one run depends on: the outcome of each file system
  call (\<open>None\<close> is success, \<open>Some e\<close> the error thrown), the answer of
  \<open>ctx.http.get\<close> to a request, and \<open>JSON.parse\<close> and \<open>JSON.stringify\<close>
  on the texts of the two files.  Reading a file that does not exist always fails;
  \<open>readFile\<close> says whether reading an existing file fails too.
  \<open>JSON_parse_metadata\<close> gives the value \<open>JSON.parse\<close> returns on the text of
  the metadata file, whatever it is, or the error thrown.  A write that fails
  comes with what the file holds afterwards (nothing, the old text, a part of the new one):
  \<open>fs.promises.writeFile\<close> writes in place.
\<close>

record host =
  JSON_parse_cache :: "string \<Rightarrow> cache_json"
  JSON_stringify_cache :: "cache_meta \<Rightarrow> string"
  JSON_parse_metadata :: "string \<Rightarrow> js_error + metadata_value"
  mkdir :: "js_error option"
  http_get :: "request \<Rightarrow> js_error + response"
  writeFile :: "path \<Rightarrow> string \<Rightarrow> (js_error \<times> string option) option"
  access :: "js_error option"
  readFile :: "path \<Rightarrow> js_error option"

text \<open>The calls that reach the disk or the network, as they are issued.\<close>

datatype event =
    Ev_mkdir
  | Ev_access path
  | Ev_readFile path
  | Ev_writeFile path string
  | Ev_get request

text \<open>
  An asynchronous call whose promise nobody awaits, at the \<open>await\<close> where it is
  suspended.  A call runs up to its first \<open>await\<close> before its caller goes on, so
  the file system call of that \<open>await\<close> is already issued.
  \<^item> \<open>Call_loadMetadata\<close>: \<open>loadMetadata(ctx)\<close> of index.ts line 130 that
    found the metadata file, at \<open>await fs.promises.access\<close> (line 134);
  \<^item> \<open>Call_loadMetadata_download\<close>: the same call when it found no metadata file,
    at \<open>await fs.promises.mkdir\<close> of its \<open>downloadMetadata\<close> (line 66);
  \<^item> \<open>Call_loadMetadata_part000\<close>: \<open>loadMetadata(ctx, config)\<close> of line 134
    of the second source file that found both files, at \<open>await fs.promises.mkdir\<close> of
    its \<open>getMetadataFile\<close> (line 63 there);
  \<^item> \<open>Call_loadMetadata_part000_download\<close>: the same call when it found no
    metadata file, at the same \<open>await\<close>.
\<close>

datatype task =
    Call_loadMetadata
  | Call_loadMetadata_download
  | Call_loadMetadata_part000
  | Call_loadMetadata_part000_download

text \<open>
  The state: the two files, the module variable of utils.ts, the calls issued so far, the
  calls started and not awaited, and what \<open>apply\<close> registered (the period of the
  timer in milliseconds, the commands).
\<close>

record world =
  files :: "path \<Rightarrow> string option"
  emojiMetadata :: store
  trace :: "event list"
  detached :: "task list"
  interval :: "nat option"
  commands :: "string list"

definition emit :: "event \<Rightarrow> world \<Rightarrow> world" where
  "emit ev w = w\<lparr>trace := trace w @ [ev]\<rparr>"

definition fs_writeFile :: "host \<Rightarrow> path \<Rightarrow> string \<Rightarrow> world \<Rightarrow> js_error option \<times> world" where
  "fs_writeFile h p content w =
     (let w' = emit (Ev_writeFile p content) w in
      case writeFile h p content of
        Some (e, left) \<Rightarrow> (Some e, w'\<lparr>files := (files w')(p := left)\<rparr>)
      | None \<Rightarrow> (None, w'\<lparr>files := (files w')(p \<mapsto> content)\<rparr>))"

definition ENOENT :: js_error where
  "ENOENT = \<lparr>e_message = Txt_Host ''ENOENT: no such file or directory'', e_response = None,
             e_code = Some ''ENOENT''\<rparr>"

section \<open>index.ts: downloadMetadata\<close>

text \<open>
  Lines 69 to 73: the descriptor as read from disk.  A missing or unreadable file and a
  text that does not parse leave \<open>cacheMeta\<close> the empty object; the result
  \<open>None\<close> is the value \<open>null\<close>.
\<close>

definition read_cacheMeta :: "host \<Rightarrow> world \<Rightarrow> cache_meta option" where
  "read_cacheMeta h w =
     (case files w CachePath of
        None \<Rightarrow> Some \<lparr>etag = None, lastModified = None\<rparr>
      | Some cacheData \<Rightarrow>
          (case readFile h CachePath of
             Some e \<Rightarrow> Some \<lparr>etag = None, lastModified = None\<rparr>
           | None \<Rightarrow>
               (case JSON_parse_cache h cacheData of
                  Json_SyntaxError \<Rightarrow> Some \<lparr>etag = None, lastModified = None\<rparr>
                | Json_null \<Rightarrow> None
                | Json_value m \<Rightarrow> Some m)))"

text \<open>Lines 76 to 84: the conditional request; an empty string is falsy.\<close>

definition build_request :: "config \<Rightarrow> cache_meta \<Rightarrow> request" where
  "build_request cfg cacheMeta =
     \<lparr>req_url = metadataUrl cfg,
      req_headers =
        (case etag cacheMeta of
           Some e \<Rightarrow> if e \<noteq> [] then [(''If-None-Match'', e)] else []
         | None \<Rightarrow> [])
        @ (case lastModified cacheMeta of
             Some l \<Rightarrow> if l \<noteq> [] then [(''If-Modified-Since'', l)] else []
           | None \<Rightarrow> []),
      req_timeout = timeout cfg\<rparr>"

text \<open>
  The body of the \<open>try\<close> block, lines 65 to 103, from the point where
  \<open>fs.promises.mkdir\<close> has been called (\<open>w1\<close> is the state then).
\<close>

definition downloadMetadata_after_mkdir :: "host \<Rightarrow> config \<Rightarrow> world \<Rightarrow> (js_error + bool) \<times> world" where
  "downloadMetadata_after_mkdir h cfg w1 =
     (case mkdir h of
        Some e \<Rightarrow> (Inl e, w1)
      | None \<Rightarrow>
          (let w2 = emit (Ev_readFile CachePath) w1 in
           case read_cacheMeta h w2 of
             None \<Rightarrow> (Inl TypeError, w2)
           | Some cacheMeta \<Rightarrow>
               (let req = build_request cfg cacheMeta;
                    w3 = emit (Ev_get req) w2
                in case http_get h req of
                     Inl e \<Rightarrow> (Inl e, w3)
                   | Inr resp \<Rightarrow>
                       if status resp = 304 then (Inr False, w3)
                       else
                         (case response_data resp of
                            None \<Rightarrow> (Inl (new_Error Txt_EmptyBody), w3)
                          | Some body \<Rightarrow>
                              if body = [] then (Inl (new_Error Txt_EmptyBody), w3)
                              else
                                (case fs_writeFile h MetadataPath body w3 of
                                   (Some e, w4) \<Rightarrow> (Inl e, w4)
                                 | (None, w4) \<Rightarrow>
                                     (let newMeta =
                                            \<lparr>etag = by_index (headers resp) ''etag'',
                                             lastModified = by_index (headers resp) ''last-modified''\<rparr>
                                      in case fs_writeFile h CachePath (JSON_stringify_cache h newMeta) w4 of
                                           (Some e, w5) \<Rightarrow> (Inl e, w5)
                                         | (None, w5) \<Rightarrow> (Inr True, w5)))))))"

text \<open>The whole \<open>try\<close> block: the call of \<open>mkdir\<close>, then the rest.\<close>

definition downloadMetadata_try :: "host \<Rightarrow> config \<Rightarrow> world \<Rightarrow> (js_error + bool) \<times> world" where
  "downloadMetadata_try h cfg w0 = downloadMetadata_after_mkdir h cfg (emit Ev_mkdir w0)"

text \<open>The \<open>catch\<close> block, lines 104 to 115: what is thrown in place of \<open>error\<close>.\<close>

definition downloadMetadata_catch :: "js_error \<Rightarrow> js_error" where
  "downloadMetadata_catch error =
     (case e_response error of
        Some (st, stText) \<Rightarrow> new_Error (Txt_ServerAbnormal st)
      | None \<Rightarrow>
          if e_code error = Some ''ECONNABORTED'' then new_Error Txt_Timeout
          else error)"

definition downloadMetadata :: "host \<Rightarrow> config \<Rightarrow> world \<Rightarrow> (js_error + bool) \<times> world" where
  "downloadMetadata h cfg w =
     (case downloadMetadata_try h cfg w of
        (Inl error, w') \<Rightarrow> (Inl (downloadMetadata_catch error), w')
      | (Inr updated, w') \<Rightarrow> (Inr updated, w'))"

text \<open>The same function from the point where \<open>mkdir\<close> has been called.\<close>

definition downloadMetadata_resumed :: "host \<Rightarrow> config \<Rightarrow> world \<Rightarrow> (js_error + bool) \<times> world" where
  "downloadMetadata_resumed h cfg w1 =
     (case downloadMetadata_after_mkdir h cfg w1 of
        (Inl error, w') \<Rightarrow> (Inl (downloadMetadata_catch error), w')
      | (Inr updated, w') \<Rightarrow> (Inr updated, w'))"

section \<open>index.ts: loadMetadata and apply\<close>

text \<open>
  The body of the \<open>try\<close> block, lines 133 to 138, from the point where
  \<open>fs.promises.access\<close> has been called (\<open>w1\<close> is the state then).
\<close>

definition loadMetadata_after_access :: "host \<Rightarrow> world \<Rightarrow> (js_error + unit) \<times> world" where
  "loadMetadata_after_access h w1 =
     (case access h of
        Some e \<Rightarrow> (Inl e, w1)
      | None \<Rightarrow>
          (let w2 = emit (Ev_readFile MetadataPath) w1 in
           case readFile h MetadataPath of
             Some e \<Rightarrow> (Inl e, w2)
           | None \<Rightarrow>
               (case files w2 MetadataPath of
                  None \<Rightarrow> (Inl ENOENT, w2)
                | Some txt \<Rightarrow>
                    (case JSON_parse_metadata h txt of
                       Inl e \<Rightarrow> (Inl e, w2)
                     | Inr metadata \<Rightarrow>
                         (Inr (), w2\<lparr>emojiMetadata := setEmojiMetadata metadata (emojiMetadata w2)\<rparr>)))))"

text \<open>The whole \<open>try\<close> block: the call of \<open>access\<close>, then the rest.\<close>

definition loadMetadata_try :: "host \<Rightarrow> world \<Rightarrow> (js_error + unit) \<times> world" where
  "loadMetadata_try h w0 = loadMetadata_after_access h (emit (Ev_access MetadataPath) w0)"

text \<open>
  Line 130: \<open>loadMetadata(ctx)\<close> is called without \<open>await\<close>.  The call runs up
  to its first \<open>await\<close>: \<open>fs.existsSync\<close> (which reads \<open>files\<close>) picks
  the branch, the file system call of that branch is issued, and the call is suspended
  there.  Its promise is dropped and the caller goes on; the model records the suspended
  call in \<open>detached\<close>, and \<open>run_detached\<close> below runs it to its end.
\<close>

definition start_loadMetadata :: "world \<Rightarrow> world" where
  "start_loadMetadata w =
     (if files w MetadataPath = None then
        (emit Ev_mkdir w)\<lparr>detached := detached w @ [Call_loadMetadata_download]\<rparr>
      else
        (emit (Ev_access MetadataPath) w)\<lparr>detached := detached w @ [Call_loadMetadata]\<rparr>)"

text \<open>\<open>fs.existsSync\<close> reads \<open>files\<close>.\<close>

definition loadMetadata :: "host \<Rightarrow> config \<Rightarrow> world \<Rightarrow> (js_error + unit) \<times> world" where
  "loadMetadata h cfg w =
     (if files w MetadataPath = None then
        (case downloadMetadata h cfg w of
           (Inl e, w') \<Rightarrow> (Inl e, w')
         | (Inr success, w') \<Rightarrow>
             if \<not> success then (Inl (new_Error Txt_DownloadFailed), w')
             else (Inr (), start_loadMetadata w'))
      else
        (case loadMetadata_try h w of
           (Inl error, w') \<Rightarrow> (Inl (new_Error (Txt_LoadFailed (e_message error))), w')
         | (Inr u, w') \<Rightarrow> (Inr (), w')))"

text \<open>
  \<open>apply\<close> (lines 145 to 193) awaits \<open>loadMetadata\<close>, then registers the timer
  and the two commands.  \<open>updateInterval\<close> is taken as a whole number of seconds.
\<close>

definition apply_plugin :: "host \<Rightarrow> config \<Rightarrow> world \<Rightarrow> (js_error + unit) \<times> world" where
  "apply_plugin h cfg w =
     (case loadMetadata h cfg w of
        (Inl e, w') \<Rightarrow> (Inl e, w')
      | (Inr u, w') \<Rightarrow>
          (Inr (),
           w'\<lparr>interval := (if autoUpdate cfg then Some (updateInterval cfg * 1000) else None),
              commands := [''emoji.update'', ''emoji'']\<rparr>))"

section \<open>The second source file (src/unnamed/part_000)\<close>

text \<open>
  The second file is another version of index.ts.  Its fetch is \<open>getMetadataFile\<close>:
  the \<open>try\<close> block (lines 63 to 96) differs from the one of \<open>downloadMetadata\<close>
  in two places: an empty body returns \<open>false\<close> (lines 84 to 87), and the headers are
  read with \<open>headers.get\<close> (lines 91 and 92).  As for index.ts, the block is given
  from the point where \<open>mkdir\<close> has been called, and then as a whole.
\<close>

definition getMetadataFile_after_mkdir :: "host \<Rightarrow> config \<Rightarrow> world \<Rightarrow> (js_error + bool) \<times> world" where
  "getMetadataFile_after_mkdir h cfg w1 =
     (case mkdir h of
        Some e \<Rightarrow> (Inl e, w1)
      | None \<Rightarrow>
          (let w2 = emit (Ev_readFile CachePath) w1 in
           case read_cacheMeta h w2 of
             None \<Rightarrow> (Inl TypeError, w2)
           | Some cacheMeta \<Rightarrow>
               (let req = build_request cfg cacheMeta;
                    w3 = emit (Ev_get req) w2
                in case http_get h req of
                     Inl e \<Rightarrow> (Inl e, w3)
                   | Inr resp \<Rightarrow>
                       if status resp = 304 then (Inr False, w3)
                       else
                         (case response_data resp of
                            None \<Rightarrow> (Inr False, w3)
                          | Some body \<Rightarrow>
                              if body = [] then (Inr False, w3)
                              else
                                (case fs_writeFile h MetadataPath body w3 of
                                   (Some e, w4) \<Rightarrow> (Inl e, w4)
                                 | (None, w4) \<Rightarrow>
                                     (let newMeta =
                                            \<lparr>etag = by_get (headers resp) ''etag'',
                                             lastModified = by_get (headers resp) ''last-modified''\<rparr>
                                      in case fs_writeFile h CachePath (JSON_stringify_cache h newMeta) w4 of
                                           (Some e, w5) \<Rightarrow> (Inl e, w5)
                                         | (None, w5) \<Rightarrow> (Inr True, w5)))))))"

definition getMetadataFile_try :: "host \<Rightarrow> config \<Rightarrow> world \<Rightarrow> (js_error + bool) \<times> world" where
  "getMetadataFile_try h cfg w0 = getMetadataFile_after_mkdir h cfg (emit Ev_mkdir w0)"

text \<open>Every branch of its \<open>catch\<close> block (lines 98 to 109) returns \<open>false\<close>.\<close>

definition getMetadataFile :: "host \<Rightarrow> config \<Rightarrow> world \<Rightarrow> bool \<times> world" where
  "getMetadataFile h cfg w =
     (case getMetadataFile_try h cfg w of
        (Inl error, w') \<Rightarrow> (False, w')
      | (Inr updated, w') \<Rightarrow> (updated, w'))"

definition getMetadataFile_resumed :: "host \<Rightarrow> config \<Rightarrow> world \<Rightarrow> bool \<times> world" where
  "getMetadataFile_resumed h cfg w1 =
     (case getMetadataFile_after_mkdir h cfg w1 of
        (Inl error, w') \<Rightarrow> (False, w')
      | (Inr updated, w') \<Rightarrow> (updated, w'))"

text \<open>
  Line 134: \<open>loadMetadata(ctx, config)\<close> is called without \<open>await\<close>.  Up to its
  first \<open>await\<close> the call reads \<open>files\<close>; with the metadata file present and
  the descriptor file missing it has no \<open>await\<close> and is over at once, on the other
  branches it is suspended at the \<open>mkdir\<close> of its \<open>getMetadataFile\<close>.
\<close>

definition start_loadMetadata_part000 :: "world \<Rightarrow> world" where
  "start_loadMetadata_part000 w =
     (if files w MetadataPath \<noteq> None then
        (if files w CachePath \<noteq> None then
           (emit Ev_mkdir w)\<lparr>detached := detached w @ [Call_loadMetadata_part000]\<rparr>
         else w)
      else
        (emit Ev_mkdir w)\<lparr>detached := detached w @ [Call_loadMetadata_part000_download]\<rparr>)"

text \<open>
  Its \<open>loadMetadata\<close> (lines 113 to 136) never calls \<open>setEmojiMetadata\<close>: with
  the metadata file present it fetches again when the descriptor file is present too, and
  does nothing otherwise.
\<close>

definition loadMetadata_part000 :: "host \<Rightarrow> config \<Rightarrow> world \<Rightarrow> (js_error + unit) \<times> world" where
  "loadMetadata_part000 h cfg w =
     (if files w MetadataPath \<noteq> None then
        (if files w CachePath \<noteq> None then
           (case getMetadataFile h cfg w of (updated, w') \<Rightarrow> (Inr (), w'))
         else (Inr (), w))
      else
        (case getMetadataFile h cfg w of
           (success, w') \<Rightarrow>
             if \<not> success then (Inl (new_Error Txt_DownloadFailed), w')
             else (Inr (), start_loadMetadata_part000 w')))"

section \<open>Calls that nobody awaits\<close>

text \<open>
  The oldest suspended call runs from its \<open>await\<close> to its end; whether it succeeds
  or throws, no caller receives its result.  A call that downloaded the file with success
  starts \<open>loadMetadata\<close> again, as its caller did.
\<close>

definition run_detached :: "host \<Rightarrow> config \<Rightarrow> world \<Rightarrow> world" where
  "run_detached h cfg w =
     (case detached w of
        [] \<Rightarrow> w
      | Call_loadMetadata # ts \<Rightarrow> snd (loadMetadata_after_access h (w\<lparr>detached := ts\<rparr>))
      | Call_loadMetadata_download # ts \<Rightarrow>
          (case downloadMetadata_resumed h cfg (w\<lparr>detached := ts\<rparr>) of
             (Inl e, w') \<Rightarrow> w'
           | (Inr success, w') \<Rightarrow> if \<not> success then w' else start_loadMetadata w')
      | Call_loadMetadata_part000 # ts \<Rightarrow> snd (getMetadataFile_resumed h cfg (w\<lparr>detached := ts\<rparr>))
      | Call_loadMetadata_part000_download # ts \<Rightarrow>
          (case getMetadataFile_resumed h cfg (w\<lparr>detached := ts\<rparr>) of
             (success, w') \<Rightarrow> if \<not> success then w' else start_loadMetadata_part000 w'))"

section \<open>Notions the properties are stated with\<close>

text \<open>
  The code points of a string, read as \<open>codePointAt\<close> reads them; a string is well
  formed when no surrogate stands alone; a scalar value is a code point that is not a
  surrogate.
\<close>

fun scalars :: "utf16 \<Rightarrow> nat list" where
  "scalars [] = []"
| "scalars [u] = [unat u]"
| "scalars (u # v # rest) =
     (if isLeadingSurrogate u \<and> isTrailingSurrogate v
      then ((unat u - 0xD800) * 0x400 + (unat v - 0xDC00) + 0x10000) # scalars rest
      else unat u # scalars (v # rest))"

fun wellFormed :: "utf16 \<Rightarrow> bool" where
  "wellFormed [] = True"
| "wellFormed [u] = (\<not> isLeadingSurrogate u \<and> \<not> isTrailingSurrogate u)"
| "wellFormed (u # v # rest) =
     (if isLeadingSurrogate u then isTrailingSurrogate v \<and> wellFormed rest
      else \<not> isTrailingSurrogate u \<and> wellFormed (v # rest))"

definition isScalarValue :: "nat \<Rightarrow> bool" where
  "isScalarValue c = (c \<le> 0x10FFFF \<and> \<not> (0xD800 \<le> c \<and> c \<le> 0xDFFF))"

definition isLowerHex :: "char \<Rightarrow> bool" where
  "isLowerHex c = (c \<in> set ''0123456789abcdef'')"

definition hexFold :: "string \<Rightarrow> nat" where
  "hexFold Z = foldl (\<lambda>acc c. case hexValue c of Some d \<Rightarrow> acc * 16 + d | None \<Rightarrow> acc) 0 Z"

text \<open>The store after a history of loads, the first load first.\<close>

definition store_after :: "metadata_value list \<Rightarrow> store" where
  "store_after loads = foldl (\<lambda>emojiMetadata metadata. setEmojiMetadata metadata emojiMetadata) None loads"

text \<open>Whether a call reaches the network, and whether it writes a file.\<close>

fun is_get :: "event \<Rightarrow> bool" where
  "is_get (Ev_get r) = True"
| "is_get ev = False"

fun is_write :: "event \<Rightarrow> bool" where
  "is_write (Ev_writeFile p c) = True"
| "is_write ev = False"

section \<open>Concrete inputs\<close>

text \<open>
  A host on which every file system call succeeds and the server answers every request
  with the given response.  The text \<open>{}\<close> stands for the text of a file that
  parses: as metadata it gives the value \<open>doc\<close> that comes with the host, as a
  descriptor the empty one; no other text parses.
\<close>

definition fx_config :: config where
  "fx_config = \<lparr>autoUpdate = True, updateInterval = 86400,
                 metadataUrl = ''https://example.org/metadata.json'', timeout = 30000\<rparr>"

definition fx_headers :: headers_obj where
  "fx_headers = \<lparr>by_index = [''etag'' \<mapsto> ''v1''], by_get = [''etag'' \<mapsto> ''v1'']\<rparr>"

definition fx_response :: "nat \<Rightarrow> string option \<Rightarrow> response" where
  "fx_response st body =
     \<lparr>url = ''https://example.org/metadata.json'', response_data = body, status = st,
      statusText = ''OK'', headers = fx_headers\<rparr>"

definition fx_stringify :: "cache_meta \<Rightarrow> string" where
  "fx_stringify m = (case etag m of Some e \<Rightarrow> ''etag:'' @ e | None \<Rightarrow> ''{}'')"

definition fx_host :: "metadata_value \<Rightarrow> response \<Rightarrow> host" where
  "fx_host doc r =
     \<lparr>JSON_parse_cache =
        (\<lambda>s. if s = ''{}'' then Json_value \<lparr>etag = None, lastModified = None\<rparr> else Json_SyntaxError),
      JSON_stringify_cache = fx_stringify,
      JSON_parse_metadata =
        (\<lambda>s. if s = ''{}'' then Inr doc else Inl (new_Error (Txt_Host ''SyntaxError''))),
      mkdir = None,
      http_get = (\<lambda>req. Inr r),
      writeFile = (\<lambda>p c. None),
      access = None,
      readFile = (\<lambda>p. None)\<rparr>"

text \<open>
  The same host with a disk on which every write to one of the two files fails and leaves
  that file empty.
\<close>

definition fx_host_failing :: "path \<Rightarrow> metadata_value \<Rightarrow> response \<Rightarrow> host" where
  "fx_host_failing bad doc r =
     (fx_host doc r)\<lparr>writeFile := (\<lambda>p c. if p = bad then Some (new_Error (Txt_Host ''ENOSPC''), Some []) else None)\<rparr>"

definition fx_no_files :: "path \<Rightarrow> string option" where
  "fx_no_files p = None"

definition fx_both_files :: "path \<Rightarrow> string option" where
  "fx_both_files p = Some ''{}''"

definition fx_world :: "(path \<Rightarrow> string option) \<Rightarrow> world" where
  "fx_world fs =
     \<lparr>files = fs, emojiMetadata = None, trace = [], detached = [], interval = None, commands = []\<rparr>"

text \<open>
  A document with one entry: face with tears of joy (U+1F602) combined with dog face
  (U+1F436) has three images, the second and the third marked as latest.
\<close>

definition fx_combos :: "combination list" where
  "fx_combos =
     [\<lparr>gStaticUrl = ''https://example.org/a.png'', isLatest = False\<rparr>,
      \<lparr>gStaticUrl = ''https://example.org/b.png'', isLatest = True\<rparr>,
      \<lparr>gStaticUrl = ''https://example.org/c.png'', isLatest = True\<rparr>]"

definition fx_doc :: metadata_value where
  "fx_doc =
     Truthy_value
       \<lparr>knownSupportedEmoji = Some [''1f602'', ''1f436''],
        data = Some [''1f602'' \<mapsto> \<lparr>combinations = [''1f436'' \<mapsto> fx_combos]\<rparr>]\<rparr>"

text \<open>
  What \<open>JSON.parse\<close> returns on the text \<open>null\<close>, and on the text of an object
  without properties.
\<close>

definition fx_null :: metadata_value where
  "fx_null = Falsy_value"

definition fx_empty_object :: metadata_value where
  "fx_empty_object = Truthy_value \<lparr>knownSupportedEmoji = None, data = None\<rparr>"

section \<open>Properties of the codepoint encoder\<close>

declare getEmojiCodepoint_loop.simps [simp del]

declare toString16.simps [simp del]

lemma unat16_bound: "unat (u :: 16 word) \<le> 0xFFFF"
  using unsigned_less [of u, where 'a = nat] by simp

lemma loop_end: "length emoji \<le> i \<Longrightarrow> getEmojiCodepoint_loop emoji i acc = Inr acc"
  by (subst getEmojiCodepoint_loop.simps) simp

lemma loop_step:
  "i < length emoji \<Longrightarrow> codePointAt emoji i = Some c \<Longrightarrow>
   getEmojiCodepoint_loop emoji i acc =
     getEmojiCodepoint_loop emoji ((if c > 0xffff then i + 1 else i) + 1) (acc @ [toString16 c])"
  by (subst getEmojiCodepoint_loop.simps) simp

lemma loop_scalars:
  "getEmojiCodepoint_loop (pre @ s) (length pre) acc = Inr (acc @ map toString16 (scalars s))"
proof (induction s arbitrary: pre acc rule: scalars.induct)
  case 1
  show ?case by (simp add: loop_end)
next
  case (2 u)
  have cp: "codePointAt (pre @ [u]) (length pre) = Some (unat u)"
    by (simp add: codePointAt_def Let_def)
  have "getEmojiCodepoint_loop (pre @ [u]) (length pre) acc =
        getEmojiCodepoint_loop (pre @ [u]) (length pre + 1) (acc @ [toString16 (unat u)])"
    using loop_step [of "length pre" "pre @ [u]" "unat u" acc] cp unat16_bound [of u] by simp
  then show ?case by (simp add: loop_end)
next
  case (3 u v rest)
  show ?case
  proof (cases "isLeadingSurrogate u \<and> isTrailingSurrogate v")
    case True
    let ?c = "(unat u - 0xD800) * 0x400 + (unat v - 0xDC00) + 0x10000"
    have cp: "codePointAt (pre @ u # v # rest) (length pre) = Some ?c"
      using True by (auto simp add: codePointAt_def Let_def nth_append isLeadingSurrogate_def isTrailingSurrogate_def)
    have "getEmojiCodepoint_loop (pre @ u # v # rest) (length pre) acc =
        getEmojiCodepoint_loop ((pre @ [u, v]) @ rest) (length (pre @ [u, v])) (acc @ [toString16 ?c])"
      using loop_step [of "length pre" "pre @ u # v # rest" ?c acc] cp by simp
    moreover have "scalars (u # v # rest) = ?c # scalars rest"
      using True by simp
    ultimately show ?thesis using "3.IH"(1) [OF True, of "pre @ [u, v]" "acc @ [toString16 ?c]"] by simp
  next
    case False
    have cp: "codePointAt (pre @ u # v # rest) (length pre) = Some (unat u)"
      using False by (auto simp add: codePointAt_def Let_def nth_append isLeadingSurrogate_def isTrailingSurrogate_def)
    have "getEmojiCodepoint_loop (pre @ u # v # rest) (length pre) acc =
        getEmojiCodepoint_loop ((pre @ [u]) @ v # rest) (length (pre @ [u])) (acc @ [toString16 (unat u)])"
      using loop_step [of "length pre" "pre @ u # v # rest" "unat u" acc] cp unat16_bound [of u] by simp
    moreover have "scalars (u # v # rest) = unat u # scalars (v # rest)"
      using False by auto
    ultimately show ?thesis using "3.IH"(2) [OF False, of "pre @ [u]" "acc @ [toString16 (unat u)]"] by simp
  qed
qed

text \<open>The encoder has no error case: it returns on every string.\<close>

lemma getEmojiCodepoint_returns:
  "getEmojiCodepoint s = Inr (toLowerCase (join ''-'' (map toString16 (scalars s))))"
  using loop_scalars [of "[]" s "[]"] by (simp add: getEmojiCodepoint_def)

lemma less_16_cases:
  "d < 16 \<Longrightarrow> d \<in> {0, 1, 2, 3, 4, 5, 6, 7, 8, 9, 10, 11, 12, 13, 14, 15 :: nat}"
  by simp arith

lemma hexDigit_lowerHex: "d < 16 \<Longrightarrow> isLowerHex (hexDigit d)"
  using less_16_cases [of d] by (auto simp add: isLowerHex_def hexDigit_def)

lemma hexValue_hexDigit: "d < 16 \<Longrightarrow> hexValue (hexDigit d) = Some d"
  using less_16_cases [of d] by (auto simp add: hexValue_def hexDigit_def)

lemma toString16_nonempty: "toString16 n \<noteq> []"
  by (subst toString16.simps) simp

lemma toString16_lowerHex: "c \<in> set (toString16 n) \<Longrightarrow> isLowerHex c"
proof (induction n rule: toString16.induct)
  case (1 n)
  show ?case
  proof (cases "n < 16")
    case True
    with "1.prems" show ?thesis
      by (subst (asm) toString16.simps) (simp add: hexDigit_lowerHex)
  next
    case False
    with "1.prems" have "c \<in> set (toString16 (n div 16)) \<or> c = hexDigit (n mod 16)"
      by (subst (asm) toString16.simps) auto
    then show ?thesis using "1.IH" False by (auto simp add: hexDigit_lowerHex)
  qed
qed

lemma hexFold_toString16: "hexFold (toString16 n) = n"
proof (induction n rule: toString16.induct)
  case (1 n)
  show ?case
  proof (cases "n < 16")
    case True
    then show ?thesis
      by (subst toString16.simps) (simp add: hexFold_def hexValue_hexDigit)
  next
    case False
    then have "hexFold (toString16 n) = hexFold (toString16 (n div 16)) * 16 + n mod 16"
      by (subst toString16.simps) (simp add: hexFold_def hexValue_hexDigit)
    then show ?thesis using "1.IH" False by simp
  qed
qed

lemma lowerHex_facts:
  "isLowerHex c \<Longrightarrow> hexValue c \<noteq> None \<and> \<not> isStrWhiteSpaceChar c \<and> c \<noteq> CHR ''-'' \<and> c \<noteq> CHR ''+''
     \<and> c \<noteq> CHR ''x'' \<and> c \<noteq> CHR ''X'' \<and> lowerChar c = c"
  by (auto simp add: isLowerHex_def hexValue_def isStrWhiteSpaceChar_def lowerChar_def Let_def)

lemma parseInt16_lowerHex:
  assumes "Z \<noteq> []" and "\<forall>c \<in> set Z. isLowerHex c"
  shows "parseInt16 Z = Some (int (hexFold Z))"
proof -
  obtain a r where Z: "Z = a # r" using assms(1) by (cases Z) auto
  have a: "\<not> isStrWhiteSpaceChar a" "a \<noteq> CHR ''-''" "a \<noteq> CHR ''+''"
    using assms(2) lowerHex_facts Z by auto
  have S: "dropWhile isStrWhiteSpaceChar Z = Z"
    using a Z by simp
  have S1: "(case Z of c # r \<Rightarrow> if c = CHR ''-'' \<or> c = CHR ''+'' then r else Z | [] \<Rightarrow> Z) = Z"
    using a Z by simp
  have sg: "(case Z of c # _ \<Rightarrow> if c = CHR ''-'' then - 1 else 1 | [] \<Rightarrow> (1 :: int)) = 1"
    using a Z by simp
  have S2: "(case Z of a # b # r \<Rightarrow> if a = CHR ''0'' \<and> (b = CHR ''x'' \<or> b = CHR ''X'') then r else Z | _ \<Rightarrow> Z) = Z"
    using assms(2) lowerHex_facts Z by (cases r) auto
  have all: "takeWhile (\<lambda>c. hexValue c \<noteq> None) Z = Z"
    using assms(2) lowerHex_facts by auto
  show ?thesis
    unfolding parseInt16_def Let_def S S1 sg S2 all hexFold_def
    using assms(1) by simp
qed

lemma parseInt16_toString16: "parseInt16 (toString16 n) = Some (int n)"
  using parseInt16_lowerHex [of "toString16 n"] toString16_nonempty toString16_lowerHex hexFold_toString16
  by auto

lemma split_no_sep: "sep \<notin> set x \<Longrightarrow> split sep x = [x]"
  by (induction x) auto

lemma split_append: "sep \<notin> set x \<Longrightarrow> split sep (x @ sep # rest) = x # split sep rest"
  by (induction x) auto

lemma split_join:
  "segs \<noteq> [] \<Longrightarrow> \<forall>x \<in> set segs. sep \<notin> set x \<Longrightarrow> split sep (join [sep] segs) = segs"
  by (induction segs rule: induct_list012) (auto simp add: split_no_sep split_append)

lemma map_lowerChar_hex: "\<forall>c \<in> set x. isLowerHex c \<Longrightarrow> map lowerChar x = x"
  by (induction x) (auto simp add: lowerHex_facts)

lemma lowerChar_sep: "lowerChar CHR ''-'' = CHR ''-''"
  by (simp add: lowerChar_def)

lemma toLowerCase_join:
  "\<forall>x \<in> set segs. \<forall>c \<in> set x. isLowerHex c \<Longrightarrow> toLowerCase (join ''-'' segs) = join ''-'' segs"
  by (induction segs rule: induct_list012)
     (auto simp add: toLowerCase_def map_lowerChar_hex lowerChar_sep)

lemma encode_pair:
  "0x10000 \<le> c \<Longrightarrow>
   UTF16EncodeCodePoint c =
     [of_nat ((c - 0x10000) div 0x400 + 0xD800), of_nat ((c - 0x10000) mod 0x400 + 0xDC00)]"
  by (simp add: UTF16EncodeCodePoint_def)

lemma encode_scalars: "wellFormed s \<Longrightarrow> concat (map UTF16EncodeCodePoint (scalars s)) = s"
proof (induction s rule: scalars.induct)
  case 1
  then show ?case by simp
next
  case (2 u)
  then show ?case using unat16_bound [of u] by (simp add: UTF16EncodeCodePoint_def)
next
  case (3 u v rest)
  show ?case
  proof (cases "isLeadingSurrogate u")
    case True
    with "3.prems" have tr: "isTrailingSurrogate v" and wf: "wellFormed rest" by simp_all
    let ?c = "(unat u - 0xD800) * 0x400 + (unat v - 0xDC00) + 0x10000"
    define a where "a = unat u - 0xD800"
    define b where "b = unat v - 0xDC00"
    have u: "unat u = a + 0xD800" and v: "unat v = b + 0xDC00" and b: "b < 0x400"
      using True tr by (auto simp add: a_def b_def isLeadingSurrogate_def isTrailingSurrogate_def)
    have d: "?c - 0x10000 = a * 0x400 + b"
      by (simp add: a_def b_def)
    have hi: "(?c - 0x10000) div 0x400 + 0xD800 = unat u"
      unfolding d using b u by simp
    have lo: "(?c - 0x10000) mod 0x400 + 0xDC00 = unat v"
      unfolding d using b v by simp
    have big: "0x10000 \<le> ?c"
      by simp
    have "UTF16EncodeCodePoint ?c = [of_nat (unat u), of_nat (unat v)]"
      by (simp only: encode_pair [OF big] hi lo)
    then have "UTF16EncodeCodePoint ?c = [u, v]"
      by simp
    then show ?thesis using True tr wf "3.IH"(1) by simp
  next
    case False
    with "3.prems" have nt: "\<not> isTrailingSurrogate u" and wf: "wellFormed (v # rest)" by simp_all
    have "UTF16EncodeCodePoint (unat u) = [u]"
      using unat16_bound [of u] by (simp add: UTF16EncodeCodePoint_def)
    then show ?thesis using False wf "3.IH"(2) by simp
  qed
qed

lemma scalars_bound: "c \<in> set (scalars s) \<Longrightarrow> c \<le> 0x10FFFF"
proof (induction s rule: scalars.induct)
  case 1
  then show ?case by simp
next
  case (2 u)
  then show ?case using unat16_bound [of u] by simp
next
  case (3 u v rest)
  then show ?case using unat16_bound [of u]
    by (auto simp add: isLeadingSurrogate_def isTrailingSurrogate_def split: if_splits)
qed

lemma fromCodePoint_scalars:
  "\<forall>c \<in> set cs. c \<le> 0x10FFFF \<Longrightarrow>
   fromCodePoint (map (\<lambda>c. Some (int c)) cs) = Inr (concat (map UTF16EncodeCodePoint cs))"
  by (induction cs) auto

lemma scalars_nonempty: "s \<noteq> [] \<Longrightarrow> scalars s \<noteq> []"
  by (induction s rule: scalars.induct) auto

lemma roundtrip_wellFormed:
  assumes "wellFormed s" and "s \<noteq> []"
  shows "\<exists>cp. getEmojiCodepoint s = Inr cp \<and> toPrintableEmoji cp = Inr s"
proof -
  let ?segs = "map toString16 (scalars s)"
  have loop: "getEmojiCodepoint_loop s 0 [] = Inr ?segs"
    using loop_scalars [of "[]" s "[]"] by simp
  have hex: "\<forall>x \<in> set ?segs. \<forall>c \<in> set x. isLowerHex c"
    using toString16_lowerHex by auto
  then have nosep: "\<forall>x \<in> set ?segs. CHR ''-'' \<notin> set x"
    using lowerHex_facts by blast
  have enc: "getEmojiCodepoint s = Inr (join ''-'' ?segs)"
    using loop toLowerCase_join [OF hex] by (simp add: getEmojiCodepoint_def)
  have "split CHR ''-'' (join ''-'' ?segs) = ?segs"
    using split_join [of ?segs "CHR ''-''"] nosep scalars_nonempty [OF assms(2)] by simp
  then have "toPrintableEmoji (join ''-'' ?segs) = fromCodePoint (map (\<lambda>c. Some (int c)) (scalars s))"
    by (simp add: toPrintableEmoji_def parseInt16_toString16 comp_def)
  also have "\<dots> = Inr s"
    using fromCodePoint_scalars [of "scalars s"] scalars_bound [of _ s] encode_scalars [OF assms(1)] by simp
  finally show ?thesis using enc by simp
qed

lemma unat_of_nat16: "n < 65536 \<Longrightarrow> unat (of_nat n :: 16 word) = n"
  by (simp add: unat_of_nat)

lemma scalars_encode:
  assumes "c \<le> 0x10FFFF"
  shows "scalars (UTF16EncodeCodePoint c) = [c]"
proof (cases "c \<le> 0xFFFF")
  case True
  then show ?thesis by (simp add: UTF16EncodeCodePoint_def unat_of_nat)
next
  case False
  define a where "a = (c - 0x10000) div 0x400"
  define b where "b = (c - 0x10000) mod 0x400"
  have a: "a < 0x400" and b: "b < 0x400" and c: "c = a * 0x400 + b + 0x10000"
    using False assms by (auto simp add: a_def b_def)
  have hi: "unat (of_nat (a + 0xD800) :: 16 word) = a + 0xD800"
    using a unat_of_nat16 [of "a + 0xD800"] by simp
  have lo: "unat (of_nat (b + 0xDC00) :: 16 word) = b + 0xDC00"
    using b unat_of_nat16 [of "b + 0xDC00"] by simp
  have enc: "UTF16EncodeCodePoint c = [of_nat (a + 0xD800), of_nat (b + 0xDC00)]"
    using False by (simp add: UTF16EncodeCodePoint_def a_def b_def)
  show ?thesis
    unfolding enc using a b hi lo
    by (simp add: isLeadingSurrogate_def isTrailingSurrogate_def c)
qed

text \<open>
  Claim C4.  For a single Unicode scalar value \<open>c\<close>, given as the string that
  encodes it in UTF-16, \<open>getEmojiCodepoint\<close> returns the hexadecimal numeral of
  \<open>c\<close> in lower case: one segment without a hyphen, made of the digits 0-9 and a-f,
  that \<open>parseInt(_, 16)\<close> reads back as \<open>c\<close>.  A character that takes a
  surrogate pair gives the one segment of its scalar value, not two segments.  The result
  is a function of the input, so the operation is deterministic.
\<close>

theorem getEmojiCodepoint_single_scalar:
  assumes "isScalarValue c"
  shows "getEmojiCodepoint (UTF16EncodeCodePoint c) = Inr (toString16 c)
         \<and> CHR ''-'' \<notin> set (toString16 c)
         \<and> (\<forall>ch \<in> set (toString16 c). isLowerHex ch)
         \<and> parseInt16 (toString16 c) = Some (int c)"
proof -
  have le: "c \<le> 0x10FFFF"
    using assms by (simp add: isScalarValue_def)
  have hex: "\<forall>ch \<in> set (toString16 c). isLowerHex ch"
    using toString16_lowerHex by blast
  then have nosep: "CHR ''-'' \<notin> set (toString16 c)"
    using lowerHex_facts by blast
  have "getEmojiCodepoint_loop (UTF16EncodeCodePoint c) 0 [] = Inr [toString16 c]"
    using loop_scalars [of "[]" "UTF16EncodeCodePoint c" "[]"] scalars_encode [OF le] by simp
  then have "getEmojiCodepoint (UTF16EncodeCodePoint c) = Inr (toString16 c)"
    using hex by (simp add: getEmojiCodepoint_def toLowerCase_def map_lowerChar_hex)
  then show ?thesis
    using hex nosep parseInt16_toString16 by blast
qed

lemma toString16_1f600: "toString16 0x1F600 = ''1f600''"
  by (simp add: toString16.simps hexDigit_def)

theorem getEmojiCodepoint_single_scalar_witness:
  "isScalarValue 0x1F600 \<and> UTF16EncodeCodePoint 0x1F600 = [0xD83D, 0xDE00]
   \<and> getEmojiCodepoint [0xD83D, 0xDE00] = Inr ''1f600''"
  using getEmojiCodepoint_single_scalar [of "0x1F600"]
  by (simp add: isScalarValue_def UTF16EncodeCodePoint_def toString16_1f600)

lemma enc_1f602_41: "getEmojiCodepoint [0xD83D, 0xDE02, 0x41] = Inr ''1f602-41''"
  by (simp add: getEmojiCodepoint_def getEmojiCodepoint_loop.simps codePointAt_def toString16.simps
      hexDigit_def toLowerCase_def lowerChar_def Let_def)

text \<open>
  Claim C10.  For every string that is not empty and has no lone surrogate,
  \<open>toPrintableEmoji\<close> applied to the result of \<open>getEmojiCodepoint\<close> gives the
  string back.  For the empty string it does not: \<open>getEmojiCodepoint\<close> returns the
  empty string, on which \<open>toPrintableEmoji\<close> raises a RangeError.
\<close>

theorem codepoint_roundtrip:
  "(wellFormed s \<and> s \<noteq> [] \<longrightarrow> (\<exists>cp. getEmojiCodepoint s = Inr cp \<and> toPrintableEmoji cp = Inr s))
   \<and> getEmojiCodepoint [] = Inr [] \<and> toPrintableEmoji [] = Inl RangeError"
proof -
  have "getEmojiCodepoint [] = Inr []"
    by (simp add: getEmojiCodepoint_def getEmojiCodepoint_loop.simps toLowerCase_def)
  moreover have "toPrintableEmoji [] = Inl RangeError"
    by (simp add: toPrintableEmoji_def parseInt16_def)
  ultimately show ?thesis using roundtrip_wellFormed by blast
qed

theorem codepoint_roundtrip_witness:
  "wellFormed [0xD83D, 0xDE02, 0x41] \<and> getEmojiCodepoint [0xD83D, 0xDE02, 0x41] = Inr ''1f602-41''
   \<and> toPrintableEmoji ''1f602-41'' = Inr [0xD83D, 0xDE02, 0x41]"
  using codepoint_roundtrip [of "[0xD83D, 0xDE02, 0x41]"]
  by (simp add: enc_1f602_41 isLeadingSurrogate_def isTrailingSurrogate_def)

section \<open>Properties of the store and of the emoji command\<close>

lemma store_after_eq: "store_after loads = (if loads = [] then None else Some (last loads))"
  by (induction loads rule: rev_induct) (simp_all add: store_after_def setEmojiMetadata_def)

text \<open>
  Claim C7, as amended.  A query of the store, \<open>getEmojiData\<close> or
  \<open>getSupportedEmoji\<close>, raises the error "the metadata is not loaded" if and only if
  the module variable is falsy at the call: no load (\<open>setEmojiMetadata\<close>) has
  happened yet, or the value loaded last is falsy.  When the value loaded last is truthy,
  \<open>getSupportedEmoji\<close> does not raise, and \<open>getEmojiData\<close> raises exactly
  when the property \<open>data\<close> of that value is \<open>undefined\<close> or \<open>null\<close>,
  and then a TypeError.  So after a load of a value that is truthy and has the property
  \<open>data\<close>, as every value of the interface \<open>EmojiMetadata\<close> is and has,
  neither query raises until the next load.
\<close>

theorem query_raises_iff_store_falsy:
  "(getEmojiData (store_after loads) cp = Inl (new_Error Txt_NotLoaded)) = (loads = [] \<or> last loads = Falsy_value)
   \<and> (getSupportedEmoji (store_after loads) = Inl (new_Error Txt_NotLoaded)) = (loads = [] \<or> last loads = Falsy_value)
   \<and> isl (getSupportedEmoji (store_after loads)) = (loads = [] \<or> last loads = Falsy_value)
   \<and> isl (getEmojiData (store_after loads) cp) =
       (loads = [] \<or> last loads = Falsy_value \<or> (\<exists>m. last loads = Truthy_value m \<and> data m = None))
   \<and> (getEmojiData (store_after loads) cp = Inl TypeError) =
       (loads \<noteq> [] \<and> (\<exists>m. last loads = Truthy_value m \<and> data m = None))"
proof (cases "loads = []")
  case True
  then show ?thesis
    by (simp add: store_after_eq getEmojiData_def getSupportedEmoji_def TypeError_def new_Error_def)
next
  case False
  then have st: "store_after loads = Some (last loads)"
    by (simp add: store_after_eq)
  show ?thesis
  proof (cases "last loads")
    case Falsy_value
    then show ?thesis
      using False by (simp add: st getEmojiData_def getSupportedEmoji_def TypeError_def new_Error_def)
  next
    case (Truthy_value m)
    then show ?thesis
      using False
      by (cases "data m") (simp_all add: st getEmojiData_def getSupportedEmoji_def TypeError_def new_Error_def)
  qed
qed

theorem query_raises_iff_store_falsy_witness:
  "getEmojiData (store_after []) ''1f602'' = Inl (new_Error Txt_NotLoaded)
   \<and> \<not> isl (getEmojiData (store_after [fx_doc]) ''1f602'')
   \<and> \<not> isl (getSupportedEmoji (store_after [fx_null, fx_doc]))
   \<and> getSupportedEmoji (store_after [fx_doc, fx_null]) = Inl (new_Error Txt_NotLoaded)
   \<and> \<not> isl (getSupportedEmoji (store_after [fx_empty_object]))
   \<and> getEmojiData (store_after [fx_empty_object]) ''1f602'' = Inl TypeError"
  using query_raises_iff_store_falsy [of "[]" "''1f602''"]
    query_raises_iff_store_falsy [of "[fx_doc]" "''1f602''"]
    query_raises_iff_store_falsy [of "[fx_null, fx_doc]" "''1f602''"]
    query_raises_iff_store_falsy [of "[fx_doc, fx_null]" "''1f602''"]
    query_raises_iff_store_falsy [of "[fx_empty_object]" "''1f602''"]
  by (simp add: fx_doc_def fx_null_def fx_empty_object_def)

text \<open>
  The claim as stated fails: after a load of \<open>null\<close> both queries still raise "the
  metadata is not loaded", and after a load of an object without the property
  \<open>data\<close> \<open>getEmojiData\<close> raises a TypeError.  index.ts reaches both from a
  metadata file with such a text: \<open>loadMetadata\<close> returns without error and has
  called \<open>setEmojiMetadata\<close>.
\<close>

theorem load_of_null_still_raises:
  "store_after [fx_null] = Some fx_null
   \<and> getEmojiData (store_after [fx_null]) ''1f602'' = Inl (new_Error Txt_NotLoaded)
   \<and> getSupportedEmoji (store_after [fx_null]) = Inl (new_Error Txt_NotLoaded)
   \<and> getEmojiData (store_after [fx_empty_object]) ''1f602'' = Inl TypeError
   \<and> fst (loadMetadata (fx_host fx_null (fx_response 304 None)) fx_config (fx_world fx_both_files)) = Inr ()
   \<and> emojiMetadata (snd (loadMetadata (fx_host fx_null (fx_response 304 None)) fx_config (fx_world fx_both_files)))
       = Some fx_null
   \<and> getEmojiData (emojiMetadata (snd (loadMetadata (fx_host fx_null (fx_response 304 None)) fx_config
         (fx_world fx_both_files)))) ''1f602'' = Inl (new_Error Txt_NotLoaded)
   \<and> getSupportedEmoji (emojiMetadata (snd (loadMetadata (fx_host fx_null (fx_response 304 None)) fx_config
         (fx_world fx_both_files)))) = Inl (new_Error Txt_NotLoaded)"
proof -
  have "loadMetadata (fx_host fx_null (fx_response 304 None)) fx_config (fx_world fx_both_files) =
      (Inr (), (fx_world fx_both_files)\<lparr>emojiMetadata := Some fx_null,
                 trace := trace (fx_world fx_both_files) @ [Ev_access MetadataPath, Ev_readFile MetadataPath]\<rparr>)"
    by (simp add: loadMetadata_def loadMetadata_try_def loadMetadata_after_access_def Let_def emit_def
        setEmojiMetadata_def fx_host_def fx_world_def fx_both_files_def)
  then show ?thesis
    by (simp add: store_after_def setEmojiMetadata_def getEmojiData_def getSupportedEmoji_def
        fx_null_def fx_empty_object_def)
qed

text \<open>
  Claim C9.  When the trimmed input of the emoji command does not have exactly two code
  points (none, one, three or more), the action returns one of its two usage messages as
  an ordinary result, whatever the store holds, and it has made no call to
  \<open>getEmojiCodepoint\<close> or \<open>getEmojiData\<close> by then.  The same holds when the
  argument is missing.
\<close>

theorem wrong_count_usage_message:
  "(length (Array_from (trim e)) \<noteq> 2 \<longrightarrow>
      emoji_action store (Some e) = (if e = [] then Reply_EnterTwo else Reply_ExactlyTwo, []))
   \<and> emoji_action store None = (Reply_EnterTwo, [])"
  by (auto simp add: emoji_action_def split: list.splits)

theorem wrong_count_usage_message_witness:
  "length (Array_from (trim [0x41])) \<noteq> 2 \<and> emoji_action None (Some [0x41]) = (Reply_ExactlyTwo, [])
   \<and> length (Array_from (trim [0x41, 0x42, 0x43])) \<noteq> 2
   \<and> emoji_action None (Some [0x41, 0x42, 0x43]) = (Reply_ExactlyTwo, [])
   \<and> length (Array_from (trim [0x20])) \<noteq> 2
   \<and> emoji_action None (Some [0x20]) = (Reply_ExactlyTwo, [])"
  using wrong_count_usage_message [of "[0x41]" None] wrong_count_usage_message [of "[0x41, 0x42, 0x43]" None]  wrong_count_usage_message [of "[0x20]" None]
  by (simp add: trim_def isTrimmed_def isLeadingSurrogate_def isTrailingSurrogate_def)

text \<open>
  Claim C8.  When a lookup with two characters finds a list of combinations that is not
  empty, the reply is the image of \<open>gStaticUrl\<close> of the selected combination: the
  first element of the list whose \<open>isLatest\<close> is true when there is one, and the
  first element of the list otherwise.  (\<open>cp1\<close> and \<open>cp2\<close> are the
  codepoint strings of the two characters; by \<open>getEmojiCodepoint_returns\<close> the
  encoder returns one for every character.)
\<close>

theorem combination_selection:
  assumes "Array_from (trim e) = [first, second]"
    and "getEmojiCodepoint first = Inr cp1"
    and "getEmojiCodepoint second = Inr cp2"
    and "getEmojiData store cp1 = Inr (Some d)"
    and "combinations d cp2 = Some cs"
    and "cs \<noteq> []"
  shows "\<exists>c. emoji_action store (Some e) =
            (Reply_Image (gStaticUrl c),
             [Call_getEmojiCodepoint first, Call_getEmojiCodepoint second, Call_getEmojiData cp1])
          \<and> ((\<exists>i<length cs. c = cs ! i \<and> isLatest c \<and> (\<forall>j<i. \<not> isLatest (cs ! j)))
              \<or> ((\<forall>x \<in> set cs. \<not> isLatest x) \<and> c = cs ! 0))"
proof -
  have ne: "e \<noteq> []"
    using assms(1) by (auto simp add: trim_def)
  obtain c0 rest where cs: "cs = c0 # rest"
    using assms(6) by (cases cs) auto
  let ?c = "case find isLatest cs of Some c \<Rightarrow> c | None \<Rightarrow> c0"
  have act: "emoji_action store (Some e) =
      (Reply_Image (gStaticUrl ?c),
       [Call_getEmojiCodepoint first, Call_getEmojiCodepoint second, Call_getEmojiData cp1])"
    using ne assms(1-5) cs by (simp add: emoji_action_def emoji_action_try_def)
  have sel: "(\<exists>i<length cs. ?c = cs ! i \<and> isLatest ?c \<and> (\<forall>j<i. \<not> isLatest (cs ! j)))
              \<or> ((\<forall>x \<in> set cs. \<not> isLatest x) \<and> ?c = cs ! 0)"
  proof (cases "find isLatest cs")
    case None
    then have "\<forall>x \<in> set cs. \<not> isLatest x"
      by (simp add: find_None_iff)
    moreover have "?c = cs ! 0"
      using None cs by simp
    ultimately show ?thesis by blast
  next
    case (Some c)
    then have c: "?c = c"
      by simp
    from Some obtain i where "i < length cs" "isLatest (cs ! i)" "c = cs ! i" "\<forall>j<i. \<not> isLatest (cs ! j)"
      by (auto simp add: find_Some_iff)
    then show ?thesis unfolding c by blast
  qed
  from act sel show ?thesis by blast
qed

lemma enc_1f602: "getEmojiCodepoint [0xD83D, 0xDE02] = Inr ''1f602''"
  by (simp add: getEmojiCodepoint_def getEmojiCodepoint_loop.simps codePointAt_def toString16.simps
      hexDigit_def toLowerCase_def lowerChar_def Let_def)

lemma enc_1f436: "getEmojiCodepoint [0xD83D, 0xDC36] = Inr ''1f436''"
  by (simp add: getEmojiCodepoint_def getEmojiCodepoint_loop.simps codePointAt_def toString16.simps
      hexDigit_def toLowerCase_def lowerChar_def Let_def)

lemma arr_joy_dog:
  "Array_from (trim [0xD83D, 0xDE02, 0xD83D, 0xDC36]) = [[0xD83D, 0xDE02], [0xD83D, 0xDC36]]"
  by (simp add: trim_def isTrimmed_def isLeadingSurrogate_def isTrailingSurrogate_def)

theorem combination_selection_witness:
  "Array_from (trim [0xD83D, 0xDE02, 0xD83D, 0xDC36]) = [[0xD83D, 0xDE02], [0xD83D, 0xDC36]]
   \<and> fst (emoji_action (Some fx_doc) (Some [0xD83D, 0xDE02, 0xD83D, 0xDC36])) =
       Reply_Image ''https://example.org/b.png''"
proof -
  have d: "getEmojiData (Some fx_doc) ''1f602'' = Inr (Some \<lparr>combinations = [''1f436'' \<mapsto> fx_combos]\<rparr>)"
    by (simp add: getEmojiData_def fx_doc_def)
  have cs: "combinations \<lparr>combinations = [''1f436'' \<mapsto> fx_combos]\<rparr> ''1f436'' = Some fx_combos"
    by simp
  have ne: "fx_combos \<noteq> []"
    by (simp add: fx_combos_def)
  obtain c where act: "emoji_action (Some fx_doc) (Some [0xD83D, 0xDE02, 0xD83D, 0xDC36]) =
        (Reply_Image (gStaticUrl c),
         [Call_getEmojiCodepoint [0xD83D, 0xDE02], Call_getEmojiCodepoint [0xD83D, 0xDC36],
          Call_getEmojiData ''1f602''])"
    and sel: "(\<exists>i<length fx_combos. c = fx_combos ! i \<and> isLatest c \<and> (\<forall>j<i. \<not> isLatest (fx_combos ! j)))
              \<or> ((\<forall>x \<in> set fx_combos. \<not> isLatest x) \<and> c = fx_combos ! 0)"
    using combination_selection [OF arr_joy_dog enc_1f602 enc_1f436 d cs ne] by blast
  have "c = fx_combos ! 1"
    using sel by (auto simp add: fx_combos_def less_Suc_eq numeral_3_eq_3)
  then have "gStaticUrl c = ''https://example.org/b.png''"
    by (simp add: fx_combos_def)
  then show ?thesis using act arr_joy_dog by simp
qed

section \<open>Properties of the refresh\<close>

lemma read_cacheMeta_emit: "read_cacheMeta h (w\<lparr>trace := t\<rparr>) = read_cacheMeta h w"
  by (simp add: read_cacheMeta_def)

lemma catch_new_Error: "downloadMetadata_catch (new_Error m) = new_Error m"
  by (simp add: downloadMetadata_catch_def new_Error_def)

lemma download_304:
  assumes "mkdir h = None" and "read_cacheMeta h w = Some cacheMeta"
    and "http_get h (build_request cfg cacheMeta) = Inr resp" and "status resp = 304"
  shows "downloadMetadata h cfg w =
           (Inr False,
            w\<lparr>trace := trace w @ [Ev_mkdir, Ev_readFile CachePath, Ev_get (build_request cfg cacheMeta)]\<rparr>)"
  using assms
  by (simp add: downloadMetadata_def downloadMetadata_try_def downloadMetadata_after_mkdir_def read_cacheMeta_emit Let_def emit_def)

lemma getFile_304:
  assumes "mkdir h = None" and "read_cacheMeta h w = Some cacheMeta"
    and "http_get h (build_request cfg cacheMeta) = Inr resp" and "status resp = 304"
  shows "getMetadataFile h cfg w =
           (False,
            w\<lparr>trace := trace w @ [Ev_mkdir, Ev_readFile CachePath, Ev_get (build_request cfg cacheMeta)]\<rparr>)"
  using assms
  by (simp add: getMetadataFile_def getMetadataFile_try_def getMetadataFile_after_mkdir_def read_cacheMeta_emit Let_def emit_def)

lemma download_empty:
  assumes "mkdir h = None" and "read_cacheMeta h w = Some cacheMeta"
    and "http_get h (build_request cfg cacheMeta) = Inr resp" and "status resp \<noteq> 304"
    and "response_data resp = None \<or> response_data resp = Some []"
  shows "downloadMetadata h cfg w =
           (Inl (new_Error Txt_EmptyBody),
            w\<lparr>trace := trace w @ [Ev_mkdir, Ev_readFile CachePath, Ev_get (build_request cfg cacheMeta)]\<rparr>)"
  using assms
  by (auto simp add: downloadMetadata_def downloadMetadata_try_def downloadMetadata_after_mkdir_def read_cacheMeta_emit Let_def emit_def
      catch_new_Error)

lemma getFile_empty:
  assumes "mkdir h = None" and "read_cacheMeta h w = Some cacheMeta"
    and "http_get h (build_request cfg cacheMeta) = Inr resp" and "status resp \<noteq> 304"
    and "response_data resp = None \<or> response_data resp = Some []"
  shows "getMetadataFile h cfg w =
           (False,
            w\<lparr>trace := trace w @ [Ev_mkdir, Ev_readFile CachePath, Ev_get (build_request cfg cacheMeta)]\<rparr>)"
  using assms
  by (auto simp add: getMetadataFile_def getMetadataFile_try_def getMetadataFile_after_mkdir_def read_cacheMeta_emit Let_def emit_def)

lemma download_updated:
  assumes "mkdir h = None" and "read_cacheMeta h w = Some cacheMeta"
    and "http_get h (build_request cfg cacheMeta) = Inr resp" and "status resp \<noteq> 304"
    and "response_data resp = Some body" and "body \<noteq> []"
    and "writeFile h MetadataPath body = None"
    and "desc = JSON_stringify_cache h \<lparr>etag = by_index (headers resp) ''etag'',
                                          lastModified = by_index (headers resp) ''last-modified''\<rparr>"
    and "writeFile h CachePath desc = None"
  shows "downloadMetadata h cfg w =
           (Inr True,
            w\<lparr>files := (files w)(MetadataPath \<mapsto> body, CachePath \<mapsto> desc),
              trace := trace w @ [Ev_mkdir, Ev_readFile CachePath, Ev_get (build_request cfg cacheMeta),
                                  Ev_writeFile MetadataPath body, Ev_writeFile CachePath desc]\<rparr>)"
  using assms
  by (simp add: downloadMetadata_def downloadMetadata_try_def downloadMetadata_after_mkdir_def read_cacheMeta_emit Let_def emit_def
      fs_writeFile_def)

lemma getFile_updated:
  assumes "mkdir h = None" and "read_cacheMeta h w = Some cacheMeta"
    and "http_get h (build_request cfg cacheMeta) = Inr resp" and "status resp \<noteq> 304"
    and "response_data resp = Some body" and "body \<noteq> []"
    and "writeFile h MetadataPath body = None"
    and "desc = JSON_stringify_cache h \<lparr>etag = by_get (headers resp) ''etag'',
                                          lastModified = by_get (headers resp) ''last-modified''\<rparr>"
    and "writeFile h CachePath desc = None"
  shows "getMetadataFile h cfg w =
           (True,
            w\<lparr>files := (files w)(MetadataPath \<mapsto> body, CachePath \<mapsto> desc),
              trace := trace w @ [Ev_mkdir, Ev_readFile CachePath, Ev_get (build_request cfg cacheMeta),
                                  Ev_writeFile MetadataPath body, Ev_writeFile CachePath desc]\<rparr>)"
  using assms
  by (simp add: getMetadataFile_def getMetadataFile_try_def getMetadataFile_after_mkdir_def read_cacheMeta_emit Let_def emit_def
      fs_writeFile_def)

lemma download_content_write_fails:
  assumes "mkdir h = None" and "read_cacheMeta h w = Some cacheMeta"
    and "http_get h (build_request cfg cacheMeta) = Inr resp" and "status resp \<noteq> 304"
    and "response_data resp = Some body" and "body \<noteq> []"
    and "writeFile h MetadataPath body = Some (e, left)"
  shows "downloadMetadata h cfg w =
           (Inl (downloadMetadata_catch e),
            w\<lparr>files := (files w)(MetadataPath := left),
              trace := trace w @ [Ev_mkdir, Ev_readFile CachePath, Ev_get (build_request cfg cacheMeta),
                                  Ev_writeFile MetadataPath body]\<rparr>)"
  using assms
  by (simp add: downloadMetadata_def downloadMetadata_try_def downloadMetadata_after_mkdir_def read_cacheMeta_emit Let_def emit_def
      fs_writeFile_def)

lemma getFile_content_write_fails:
  assumes "mkdir h = None" and "read_cacheMeta h w = Some cacheMeta"
    and "http_get h (build_request cfg cacheMeta) = Inr resp" and "status resp \<noteq> 304"
    and "response_data resp = Some body" and "body \<noteq> []"
    and "writeFile h MetadataPath body = Some (e, left)"
  shows "getMetadataFile h cfg w =
           (False,
            w\<lparr>files := (files w)(MetadataPath := left),
              trace := trace w @ [Ev_mkdir, Ev_readFile CachePath, Ev_get (build_request cfg cacheMeta),
                                  Ev_writeFile MetadataPath body]\<rparr>)"
  using assms
  by (simp add: getMetadataFile_def getMetadataFile_try_def getMetadataFile_after_mkdir_def read_cacheMeta_emit Let_def emit_def
      fs_writeFile_def)

lemma download_descriptor_write_fails:
  assumes "mkdir h = None" and "read_cacheMeta h w = Some cacheMeta"
    and "http_get h (build_request cfg cacheMeta) = Inr resp" and "status resp \<noteq> 304"
    and "response_data resp = Some body" and "body \<noteq> []"
    and "writeFile h MetadataPath body = None"
    and "desc = JSON_stringify_cache h \<lparr>etag = by_index (headers resp) ''etag'',
                                          lastModified = by_index (headers resp) ''last-modified''\<rparr>"
    and "writeFile h CachePath desc = Some (e, left)"
  shows "downloadMetadata h cfg w =
           (Inl (downloadMetadata_catch e),
            w\<lparr>files := (files w)(MetadataPath \<mapsto> body, CachePath := left),
              trace := trace w @ [Ev_mkdir, Ev_readFile CachePath, Ev_get (build_request cfg cacheMeta),
                                  Ev_writeFile MetadataPath body, Ev_writeFile CachePath desc]\<rparr>)"
  using assms
  by (simp add: downloadMetadata_def downloadMetadata_try_def downloadMetadata_after_mkdir_def read_cacheMeta_emit Let_def emit_def
      fs_writeFile_def)

lemma getFile_descriptor_write_fails:
  assumes "mkdir h = None" and "read_cacheMeta h w = Some cacheMeta"
    and "http_get h (build_request cfg cacheMeta) = Inr resp" and "status resp \<noteq> 304"
    and "response_data resp = Some body" and "body \<noteq> []"
    and "writeFile h MetadataPath body = None"
    and "desc = JSON_stringify_cache h \<lparr>etag = by_get (headers resp) ''etag'',
                                          lastModified = by_get (headers resp) ''last-modified''\<rparr>"
    and "writeFile h CachePath desc = Some (e, left)"
  shows "getMetadataFile h cfg w =
           (False,
            w\<lparr>files := (files w)(MetadataPath \<mapsto> body, CachePath := left),
              trace := trace w @ [Ev_mkdir, Ev_readFile CachePath, Ev_get (build_request cfg cacheMeta),
                                  Ev_writeFile MetadataPath body, Ev_writeFile CachePath desc]\<rparr>)"
  using assms
  by (simp add: getMetadataFile_def getMetadataFile_try_def getMetadataFile_after_mkdir_def read_cacheMeta_emit Let_def emit_def
      fs_writeFile_def)

lemma fx_read_none: "read_cacheMeta (fx_host doc r) (fx_world fx_no_files) = Some \<lparr>etag = None, lastModified = None\<rparr>"
  by (simp add: read_cacheMeta_def fx_world_def fx_no_files_def)

lemma fx_read_both: "read_cacheMeta (fx_host doc r) (fx_world fx_both_files) = Some \<lparr>etag = None, lastModified = None\<rparr>"
  by (simp add: read_cacheMeta_def fx_world_def fx_both_files_def fx_host_def)

lemma fx_host_simps:
  "mkdir (fx_host doc r) = None"
  "http_get (fx_host doc r) req = Inr r"
  "writeFile (fx_host doc r) p c = None"
  "access (fx_host doc r) = None"
  "readFile (fx_host doc r) p = None"
  "JSON_stringify_cache (fx_host doc r) = fx_stringify"
  by (simp_all add: fx_host_def)

lemma fx_failing_simps:
  "mkdir (fx_host_failing bad doc r) = None"
  "http_get (fx_host_failing bad doc r) req = Inr r"
  "writeFile (fx_host_failing bad doc r) p c =
     (if p = bad then Some (new_Error (Txt_Host ''ENOSPC''), Some []) else None)"
  "JSON_stringify_cache (fx_host_failing bad doc r) = fx_stringify"
  by (simp_all add: fx_host_failing_def fx_host_def)

lemma fx_failing_read: "read_cacheMeta (fx_host_failing bad doc r) (fx_world fx_no_files) = Some \<lparr>etag = None, lastModified = None\<rparr>"
  by (simp add: read_cacheMeta_def fx_world_def fx_no_files_def)

lemma fx_response_simps:
  "status (fx_response st b) = st"
  "response_data (fx_response st b) = b"
  "headers (fx_response st b) = fx_headers"
  by (simp_all add: fx_response_def)

text \<open>
  Claim C6.  When the request goes out (the directory call succeeded and the descriptor
  did not parse to \<open>null\<close>) and the server answers with status 304, the refresh, in
  both source files, returns "not modified" (\<open>false\<close>), leaves both files as they
  were and issues no write: the only calls are \<open>mkdir\<close>, the read of the descriptor
  and the request itself.
\<close>

theorem not_modified_touches_no_file:
  assumes "mkdir h = None" and "read_cacheMeta h w = Some cacheMeta"
    and "http_get h (build_request cfg cacheMeta) = Inr resp" and "status resp = 304"
  shows "downloadMetadata h cfg w =
           (Inr False,
            w\<lparr>trace := trace w @ [Ev_mkdir, Ev_readFile CachePath, Ev_get (build_request cfg cacheMeta)]\<rparr>)
         \<and> getMetadataFile h cfg w =
           (False,
            w\<lparr>trace := trace w @ [Ev_mkdir, Ev_readFile CachePath, Ev_get (build_request cfg cacheMeta)]\<rparr>)
         \<and> files (snd (downloadMetadata h cfg w)) = files w
         \<and> files (snd (getMetadataFile h cfg w)) = files w
         \<and> filter is_write (trace (snd (downloadMetadata h cfg w))) = filter is_write (trace w)
         \<and> filter is_write (trace (snd (getMetadataFile h cfg w))) = filter is_write (trace w)"
  by (simp add: download_304 [OF assms] getFile_304 [OF assms])

theorem not_modified_touches_no_file_witness:
  "mkdir (fx_host fx_doc (fx_response 304 None)) = None
   \<and> read_cacheMeta (fx_host fx_doc (fx_response 304 None)) (fx_world fx_both_files) =
       Some \<lparr>etag = None, lastModified = None\<rparr>
   \<and> status (fx_response 304 None) = 304
   \<and> fst (downloadMetadata (fx_host fx_doc (fx_response 304 None)) fx_config (fx_world fx_both_files)) = Inr False
   \<and> fst (getMetadataFile (fx_host fx_doc (fx_response 304 None)) fx_config (fx_world fx_both_files)) = False
   \<and> files (snd (downloadMetadata (fx_host fx_doc (fx_response 304 None)) fx_config (fx_world fx_both_files)))
       = fx_both_files
   \<and> files (snd (getMetadataFile (fx_host fx_doc (fx_response 304 None)) fx_config (fx_world fx_both_files)))
       = fx_both_files"
  using not_modified_touches_no_file [of "fx_host fx_doc (fx_response 304 None)" "fx_world fx_both_files"
      "\<lparr>etag = None, lastModified = None\<rparr>" fx_config "fx_response 304 None"]
  by (simp add: fx_read_both fx_host_simps) (simp add: fx_response_def fx_world_def)

text \<open>
  Claim C1, as amended.  When the request goes out and the server answers with a status
  other than 304 (every 2xx status is one) and an empty or absent body, neither source
  file writes the metadata file or the descriptor file.  \<open>getMetadataFile\<close> of the
  second source file returns \<open>false\<close>, the "not modified" outcome;
  \<open>downloadMetadata\<close> of index.ts raises the error "the server response data is
  empty" (lines 91 to 93, rethrown unchanged by its \<open>catch\<close> block).
\<close>

theorem empty_body_no_write:
  assumes "mkdir h = None" and "read_cacheMeta h w = Some cacheMeta"
    and "http_get h (build_request cfg cacheMeta) = Inr resp" and "status resp \<noteq> 304"
    and "response_data resp = None \<or> response_data resp = Some []"
  shows "getMetadataFile h cfg w =
           (False,
            w\<lparr>trace := trace w @ [Ev_mkdir, Ev_readFile CachePath, Ev_get (build_request cfg cacheMeta)]\<rparr>)
         \<and> downloadMetadata h cfg w =
           (Inl (new_Error Txt_EmptyBody),
            w\<lparr>trace := trace w @ [Ev_mkdir, Ev_readFile CachePath, Ev_get (build_request cfg cacheMeta)]\<rparr>)
         \<and> files (snd (getMetadataFile h cfg w)) = files w
         \<and> files (snd (downloadMetadata h cfg w)) = files w
         \<and> filter is_write (trace (snd (getMetadataFile h cfg w))) = filter is_write (trace w)
         \<and> filter is_write (trace (snd (downloadMetadata h cfg w))) = filter is_write (trace w)"
  by (simp add: download_empty [OF assms] getFile_empty [OF assms])

theorem empty_body_no_write_witness:
  "mkdir (fx_host fx_doc (fx_response 200 (Some []))) = None
   \<and> read_cacheMeta (fx_host fx_doc (fx_response 200 (Some []))) (fx_world fx_both_files) =
       Some \<lparr>etag = None, lastModified = None\<rparr>
   \<and> status (fx_response 200 (Some [])) \<noteq> 304
   \<and> response_data (fx_response 200 (Some [])) = Some []
   \<and> fst (getMetadataFile (fx_host fx_doc (fx_response 200 (Some []))) fx_config (fx_world fx_both_files)) = False
   \<and> files (snd (getMetadataFile (fx_host fx_doc (fx_response 200 (Some []))) fx_config (fx_world fx_both_files)))
       = fx_both_files
   \<and> files (snd (downloadMetadata (fx_host fx_doc (fx_response 200 (Some []))) fx_config (fx_world fx_both_files)))
       = fx_both_files"
  using empty_body_no_write [of "fx_host fx_doc (fx_response 200 (Some []))" "fx_world fx_both_files"
      "\<lparr>etag = None, lastModified = None\<rparr>" fx_config "fx_response 200 (Some [])"]
  by (simp add: fx_read_both fx_host_simps) (simp add: fx_response_def fx_world_def)

text \<open>
  The claim as stated fails on index.ts: on a response with status 200 and a body of
  length zero \<open>downloadMetadata\<close> raises and does not return \<open>false\<close>.
\<close>

theorem downloadMetadata_empty_body_raises:
  "status (fx_response 200 (Some [])) = 200
   \<and> response_data (fx_response 200 (Some [])) = Some []
   \<and> fst (downloadMetadata (fx_host fx_doc (fx_response 200 (Some []))) fx_config (fx_world fx_both_files))
       = Inl (new_Error Txt_EmptyBody)
   \<and> fst (downloadMetadata (fx_host fx_doc (fx_response 200 (Some []))) fx_config (fx_world fx_both_files))
       \<noteq> Inr False"
proof -
  have "status (fx_response 200 (Some [])) \<noteq> 304"
    by (simp add: fx_response_def)
  moreover have "response_data (fx_response 200 (Some [])) = None \<or> response_data (fx_response 200 (Some [])) = Some []"
    by (simp add: fx_response_def)
  ultimately have "downloadMetadata (fx_host fx_doc (fx_response 200 (Some []))) fx_config (fx_world fx_both_files) =
      (Inl (new_Error Txt_EmptyBody),
       (fx_world fx_both_files)\<lparr>trace := trace (fx_world fx_both_files) @
          [Ev_mkdir, Ev_readFile CachePath, Ev_get (build_request fx_config \<lparr>etag = None, lastModified = None\<rparr>)]\<rparr>)"
    using download_empty [of "fx_host fx_doc (fx_response 200 (Some []))" "fx_world fx_both_files"
      "\<lparr>etag = None, lastModified = None\<rparr>" fx_config "fx_response 200 (Some [])"]
    by (simp add: fx_read_both fx_host_simps)
  then show ?thesis by (simp add: fx_response_def)
qed

text \<open>
  Claim C5.  When the request goes out and the server answers with a status other than
  304 and a body that is not empty, the refresh, in both source files, first writes the
  body to the metadata file, then writes the descriptor built from the \<open>etag\<close> and
  \<open>last-modified\<close> headers of the response to the descriptor file, and returns
  \<open>true\<close> (updated).  No state in between has a new descriptor without the new
  content: when the write of the content fails, no write of the descriptor is issued and
  the descriptor file is as before; when the write of the descriptor fails, the metadata
  file already holds the new body.
\<close>

theorem content_written_before_descriptor:
  assumes "mkdir h = None" and "read_cacheMeta h w = Some cacheMeta"
    and "http_get h (build_request cfg cacheMeta) = Inr resp" and "status resp \<noteq> 304"
    and "response_data resp = Some body" and "body \<noteq> []"
    and "desc_index = JSON_stringify_cache h \<lparr>etag = by_index (headers resp) ''etag'',
                                          lastModified = by_index (headers resp) ''last-modified''\<rparr>"
    and "desc_get = JSON_stringify_cache h \<lparr>etag = by_get (headers resp) ''etag'',
                                          lastModified = by_get (headers resp) ''last-modified''\<rparr>"
  shows "(writeFile h MetadataPath body = None \<and> writeFile h CachePath desc_index = None \<longrightarrow>
            downloadMetadata h cfg w =
              (Inr True,
               w\<lparr>files := (files w)(MetadataPath \<mapsto> body, CachePath \<mapsto> desc_index),
                 trace := trace w @ [Ev_mkdir, Ev_readFile CachePath, Ev_get (build_request cfg cacheMeta),
                                     Ev_writeFile MetadataPath body, Ev_writeFile CachePath desc_index]\<rparr>))
         \<and> (writeFile h MetadataPath body = None \<and> writeFile h CachePath desc_get = None \<longrightarrow>
            getMetadataFile h cfg w =
              (True,
               w\<lparr>files := (files w)(MetadataPath \<mapsto> body, CachePath \<mapsto> desc_get),
                 trace := trace w @ [Ev_mkdir, Ev_readFile CachePath, Ev_get (build_request cfg cacheMeta),
                                     Ev_writeFile MetadataPath body, Ev_writeFile CachePath desc_get]\<rparr>))
         \<and> (\<forall>e left. writeFile h MetadataPath body = Some (e, left) \<longrightarrow>
            downloadMetadata h cfg w =
              (Inl (downloadMetadata_catch e),
               w\<lparr>files := (files w)(MetadataPath := left),
                 trace := trace w @ [Ev_mkdir, Ev_readFile CachePath, Ev_get (build_request cfg cacheMeta),
                                     Ev_writeFile MetadataPath body]\<rparr>)
            \<and> getMetadataFile h cfg w =
              (False,
               w\<lparr>files := (files w)(MetadataPath := left),
                 trace := trace w @ [Ev_mkdir, Ev_readFile CachePath, Ev_get (build_request cfg cacheMeta),
                                     Ev_writeFile MetadataPath body]\<rparr>))
         \<and> (\<forall>e left. writeFile h MetadataPath body = None \<and> writeFile h CachePath desc_index = Some (e, left) \<longrightarrow>
            downloadMetadata h cfg w =
              (Inl (downloadMetadata_catch e),
               w\<lparr>files := (files w)(MetadataPath \<mapsto> body, CachePath := left),
                 trace := trace w @ [Ev_mkdir, Ev_readFile CachePath, Ev_get (build_request cfg cacheMeta),
                                     Ev_writeFile MetadataPath body, Ev_writeFile CachePath desc_index]\<rparr>))
         \<and> (\<forall>e left. writeFile h MetadataPath body = None \<and> writeFile h CachePath desc_get = Some (e, left) \<longrightarrow>
            getMetadataFile h cfg w =
              (False,
               w\<lparr>files := (files w)(MetadataPath \<mapsto> body, CachePath := left),
                 trace := trace w @ [Ev_mkdir, Ev_readFile CachePath, Ev_get (build_request cfg cacheMeta),
                                     Ev_writeFile MetadataPath body, Ev_writeFile CachePath desc_get]\<rparr>))"
proof (intro conjI allI impI)
  assume "writeFile h MetadataPath body = None \<and> writeFile h CachePath desc_index = None"
  then show "downloadMetadata h cfg w =
      (Inr True,
       w\<lparr>files := (files w)(MetadataPath \<mapsto> body, CachePath \<mapsto> desc_index),
         trace := trace w @ [Ev_mkdir, Ev_readFile CachePath, Ev_get (build_request cfg cacheMeta),
                             Ev_writeFile MetadataPath body, Ev_writeFile CachePath desc_index]\<rparr>)"
    using download_updated [OF assms(1-6) _ assms(7)] by blast
next
  assume "writeFile h MetadataPath body = None \<and> writeFile h CachePath desc_get = None"
  then show "getMetadataFile h cfg w =
      (True,
       w\<lparr>files := (files w)(MetadataPath \<mapsto> body, CachePath \<mapsto> desc_get),
         trace := trace w @ [Ev_mkdir, Ev_readFile CachePath, Ev_get (build_request cfg cacheMeta),
                             Ev_writeFile MetadataPath body, Ev_writeFile CachePath desc_get]\<rparr>)"
    using getFile_updated [OF assms(1-6) _ assms(8)] by blast
next
  fix e left assume "writeFile h MetadataPath body = Some (e, left)"
  then show "downloadMetadata h cfg w =
      (Inl (downloadMetadata_catch e),
       w\<lparr>files := (files w)(MetadataPath := left),
         trace := trace w @ [Ev_mkdir, Ev_readFile CachePath, Ev_get (build_request cfg cacheMeta),
                             Ev_writeFile MetadataPath body]\<rparr>)"
    using download_content_write_fails [OF assms(1-6)] by blast
next
  fix e left assume "writeFile h MetadataPath body = Some (e, left)"
  then show "getMetadataFile h cfg w =
      (False,
       w\<lparr>files := (files w)(MetadataPath := left),
         trace := trace w @ [Ev_mkdir, Ev_readFile CachePath, Ev_get (build_request cfg cacheMeta),
                             Ev_writeFile MetadataPath body]\<rparr>)"
    using getFile_content_write_fails [OF assms(1-6)] by blast
next
  fix e left assume "writeFile h MetadataPath body = None \<and> writeFile h CachePath desc_index = Some (e, left)"
  then show "downloadMetadata h cfg w =
      (Inl (downloadMetadata_catch e),
       w\<lparr>files := (files w)(MetadataPath \<mapsto> body, CachePath := left),
         trace := trace w @ [Ev_mkdir, Ev_readFile CachePath, Ev_get (build_request cfg cacheMeta),
                             Ev_writeFile MetadataPath body, Ev_writeFile CachePath desc_index]\<rparr>)"
    using download_descriptor_write_fails [OF assms(1-6) _ assms(7)] by blast
next
  fix e left assume "writeFile h MetadataPath body = None \<and> writeFile h CachePath desc_get = Some (e, left)"
  then show "getMetadataFile h cfg w =
      (False,
       w\<lparr>files := (files w)(MetadataPath \<mapsto> body, CachePath := left),
         trace := trace w @ [Ev_mkdir, Ev_readFile CachePath, Ev_get (build_request cfg cacheMeta),
                             Ev_writeFile MetadataPath body, Ev_writeFile CachePath desc_get]\<rparr>)"
    using getFile_descriptor_write_fails [OF assms(1-6) _ assms(8)] by blast
qed

theorem content_written_before_descriptor_witness:
  "mkdir (fx_host fx_doc (fx_response 200 (Some ''{}''))) = None
   \<and> read_cacheMeta (fx_host fx_doc (fx_response 200 (Some ''{}''))) (fx_world fx_no_files) =
       Some \<lparr>etag = None, lastModified = None\<rparr>
   \<and> status (fx_response 200 (Some ''{}'')) \<noteq> 304
   \<and> response_data (fx_response 200 (Some ''{}'')) = Some ''{}''
   \<and> fst (downloadMetadata (fx_host fx_doc (fx_response 200 (Some ''{}''))) fx_config (fx_world fx_no_files)) = Inr True
   \<and> trace (snd (downloadMetadata (fx_host fx_doc (fx_response 200 (Some ''{}''))) fx_config (fx_world fx_no_files))) =
       [Ev_mkdir, Ev_readFile CachePath, Ev_get (build_request fx_config \<lparr>etag = None, lastModified = None\<rparr>),
        Ev_writeFile MetadataPath ''{}'', Ev_writeFile CachePath ''etag:v1'']
   \<and> fst (getMetadataFile (fx_host fx_doc (fx_response 200 (Some ''{}''))) fx_config (fx_world fx_no_files)) = True
   \<and> files (snd (getMetadataFile (fx_host fx_doc (fx_response 200 (Some ''{}''))) fx_config (fx_world fx_no_files))) CachePath
       = Some ''etag:v1''
   \<and> files (snd (downloadMetadata (fx_host_failing MetadataPath fx_doc (fx_response 200 (Some ''{}''))) fx_config
         (fx_world fx_no_files))) = fx_no_files(MetadataPath \<mapsto> [])
   \<and> files (snd (downloadMetadata (fx_host_failing CachePath fx_doc (fx_response 200 (Some ''{}''))) fx_config
         (fx_world fx_no_files))) = fx_no_files(MetadataPath \<mapsto> ''{}'', CachePath \<mapsto> [])"
proof -
  let ?R = "fx_response 200 (Some ''{}'')"
  let ?H = "fx_host fx_doc ?R"
  let ?M = "fx_host_failing MetadataPath fx_doc ?R"
  let ?C = "fx_host_failing CachePath fx_doc ?R"
  let ?W = "fx_world fx_no_files"
  let ?E = "\<lparr>etag = None, lastModified = None\<rparr>"
  have r: "status ?R \<noteq> 304" "response_data ?R = Some ''{}''" "''{}'' \<noteq> []"
    by (simp_all add: fx_response_simps)
  have h: "mkdir ?H = None" "read_cacheMeta ?H ?W = Some ?E" "http_get ?H (build_request fx_config ?E) = Inr ?R"
    by (simp_all add: fx_host_simps fx_read_none)
  have m: "mkdir ?M = None" "read_cacheMeta ?M ?W = Some ?E" "http_get ?M (build_request fx_config ?E) = Inr ?R"
    by (simp_all add: fx_failing_simps fx_failing_read)
  have c: "mkdir ?C = None" "read_cacheMeta ?C ?W = Some ?E" "http_get ?C (build_request fx_config ?E) = Inr ?R"
    by (simp_all add: fx_failing_simps fx_failing_read)
  have dh: "''etag:v1'' = JSON_stringify_cache ?H \<lparr>etag = by_index (headers ?R) ''etag'',
                lastModified = by_index (headers ?R) ''last-modified''\<rparr>"
       "''etag:v1'' = JSON_stringify_cache ?H \<lparr>etag = by_get (headers ?R) ''etag'',
                lastModified = by_get (headers ?R) ''last-modified''\<rparr>"
    by (simp_all add: fx_host_simps fx_response_simps fx_headers_def fx_stringify_def)
  have dm: "''etag:v1'' = JSON_stringify_cache ?M \<lparr>etag = by_index (headers ?R) ''etag'',
                lastModified = by_index (headers ?R) ''last-modified''\<rparr>"
       "''etag:v1'' = JSON_stringify_cache ?M \<lparr>etag = by_get (headers ?R) ''etag'',
                lastModified = by_get (headers ?R) ''last-modified''\<rparr>"
    by (simp_all add: fx_failing_simps fx_response_simps fx_headers_def fx_stringify_def)
  have dc: "''etag:v1'' = JSON_stringify_cache ?C \<lparr>etag = by_index (headers ?R) ''etag'',
                lastModified = by_index (headers ?R) ''last-modified''\<rparr>"
       "''etag:v1'' = JSON_stringify_cache ?C \<lparr>etag = by_get (headers ?R) ''etag'',
                lastModified = by_get (headers ?R) ''last-modified''\<rparr>"
    by (simp_all add: fx_failing_simps fx_response_simps fx_headers_def fx_stringify_def)
  have wh: "writeFile ?H MetadataPath ''{}'' = None \<and> writeFile ?H CachePath ''etag:v1'' = None"
    by (simp add: fx_host_simps)
  have wm: "writeFile ?M MetadataPath ''{}'' = Some (new_Error (Txt_Host ''ENOSPC''), Some [])"
    by (simp add: fx_failing_simps)
  have wc: "writeFile ?C MetadataPath ''{}'' = None
            \<and> writeFile ?C CachePath ''etag:v1'' = Some (new_Error (Txt_Host ''ENOSPC''), Some [])"
    by (simp add: fx_failing_simps)
  note on_h = content_written_before_descriptor [OF h r dh]
  note on_m = content_written_before_descriptor [OF m r dm]
  note on_c = content_written_before_descriptor [OF c r dc]
  have d1: "downloadMetadata ?H fx_config ?W =
      (Inr True,
       ?W\<lparr>files := (files ?W)(MetadataPath \<mapsto> ''{}'', CachePath \<mapsto> ''etag:v1''),
           trace := trace ?W @ [Ev_mkdir, Ev_readFile CachePath, Ev_get (build_request fx_config ?E),
                                Ev_writeFile MetadataPath ''{}'', Ev_writeFile CachePath ''etag:v1'']\<rparr>)"
    using on_h wh by blast
  have g1: "getMetadataFile ?H fx_config ?W =
      (True,
       ?W\<lparr>files := (files ?W)(MetadataPath \<mapsto> ''{}'', CachePath \<mapsto> ''etag:v1''),
           trace := trace ?W @ [Ev_mkdir, Ev_readFile CachePath, Ev_get (build_request fx_config ?E),
                                Ev_writeFile MetadataPath ''{}'', Ev_writeFile CachePath ''etag:v1'']\<rparr>)"
    using on_h wh by blast
  have d2: "downloadMetadata ?M fx_config ?W =
      (Inl (downloadMetadata_catch (new_Error (Txt_Host ''ENOSPC''))),
       ?W\<lparr>files := (files ?W)(MetadataPath := Some []),
           trace := trace ?W @ [Ev_mkdir, Ev_readFile CachePath, Ev_get (build_request fx_config ?E),
                                Ev_writeFile MetadataPath ''{}'']\<rparr>)"
    using on_m wm by blast
  have d3: "downloadMetadata ?C fx_config ?W =
      (Inl (downloadMetadata_catch (new_Error (Txt_Host ''ENOSPC''))),
       ?W\<lparr>files := (files ?W)(MetadataPath \<mapsto> ''{}'', CachePath := Some []),
           trace := trace ?W @ [Ev_mkdir, Ev_readFile CachePath, Ev_get (build_request fx_config ?E),
                                Ev_writeFile MetadataPath ''{}'', Ev_writeFile CachePath ''etag:v1'']\<rparr>)"
    using on_c wc by blast
  show ?thesis
    unfolding d1 g1 d2 d3 using h r by (simp add: fx_world_def)
qed

section \<open>Properties of the bootstrap\<close>

lemma loadMetadata_warm:
  assumes "files w MetadataPath = Some txt"
  shows "loadMetadata h cfg w =
           (case loadMetadata_try h w of
              (Inl error, w') \<Rightarrow> (Inl (new_Error (Txt_LoadFailed (e_message error))), w')
            | (Inr u, w') \<Rightarrow> (Inr (), w'))"
  using assms by (simp add: loadMetadata_def)

lemma loadMetadata_try_no_get:
  "filter is_get (trace (snd (loadMetadata_try h w))) = filter is_get (trace w)"
  by (simp add: loadMetadata_try_def loadMetadata_after_access_def Let_def emit_def split: option.splits sum.splits)

lemma loadMetadata_try_ok:
  assumes "files w MetadataPath = Some txt" and "access h = None" and "readFile h MetadataPath = None"
    and "JSON_parse_metadata h txt = Inr md"
  shows "loadMetadata_try h w =
     (Inr (), w\<lparr>emojiMetadata := Some md, trace := trace w @ [Ev_access MetadataPath, Ev_readFile MetadataPath]\<rparr>)"
  using assms by (simp add: loadMetadata_try_def loadMetadata_after_access_def Let_def emit_def setEmojiMetadata_def)

lemma loadMetadata_try_success:
  assumes "files w MetadataPath = Some txt" and "fst (loadMetadata_try h w) = Inr u"
  shows "\<exists>md. JSON_parse_metadata h txt = Inr md \<and> emojiMetadata (snd (loadMetadata_try h w)) = Some md"
  using assms
  by (auto simp add: loadMetadata_try_def loadMetadata_after_access_def Let_def emit_def setEmojiMetadata_def split: option.splits sum.splits)

lemma loadMetadata_try_failure:
  assumes "fst (loadMetadata_try h w) = Inl e"
  shows "emojiMetadata (snd (loadMetadata_try h w)) = emojiMetadata w"
  using assms
  by (auto simp add: loadMetadata_try_def loadMetadata_after_access_def Let_def emit_def setEmojiMetadata_def split: option.splits sum.splits)

lemma getMetadataFile_store: "emojiMetadata (snd (getMetadataFile h cfg w)) = emojiMetadata w"
  by (simp add: getMetadataFile_def getMetadataFile_try_def getMetadataFile_after_mkdir_def Let_def emit_def fs_writeFile_def
      split: option.splits sum.splits prod.splits)

lemma loadMetadata_part000_store: "emojiMetadata (snd (loadMetadata_part000 h cfg w)) = emojiMetadata w"
  using getMetadataFile_store [of h cfg w]
  by (auto simp add: loadMetadata_part000_def start_loadMetadata_part000_def emit_def split: prod.splits)

text \<open>
  Claim C3, as amended.  With the metadata file present, \<open>loadMetadata\<close> of
  index.ts issues no network request; when the file can be accessed, read and parsed it
  puts the parsed document into the store, and when it returns without error the store
  holds the document parsed from that file; when it raises, the error is "loading the
  metadata failed" and the store is as before.
  \<open>loadMetadata\<close> of the second source file never changes the store, and with both
  files present it is one run of \<open>getMetadataFile\<close>, a conditional request.
\<close>

theorem warm_start_index_ts:
  assumes "files w MetadataPath = Some txt"
  shows "filter is_get (trace (snd (loadMetadata h cfg w))) = filter is_get (trace w)
         \<and> (\<forall>md. access h = None \<and> readFile h MetadataPath = None \<and> JSON_parse_metadata h txt = Inr md \<longrightarrow>
               loadMetadata h cfg w =
                 (Inr (), w\<lparr>emojiMetadata := Some md,
                            trace := trace w @ [Ev_access MetadataPath, Ev_readFile MetadataPath]\<rparr>))
         \<and> (fst (loadMetadata h cfg w) = Inr () \<longrightarrow>
               (\<exists>md. JSON_parse_metadata h txt = Inr md \<and> emojiMetadata (snd (loadMetadata h cfg w)) = Some md))
         \<and> (fst (loadMetadata h cfg w) \<noteq> Inr () \<longrightarrow>
               emojiMetadata (snd (loadMetadata h cfg w)) = emojiMetadata w)
         \<and> (fst (loadMetadata h cfg w) \<noteq> Inr () \<longrightarrow>
               (\<exists>m. fst (loadMetadata h cfg w) = Inl (new_Error (Txt_LoadFailed m))))
         \<and> emojiMetadata (snd (loadMetadata_part000 h cfg w)) = emojiMetadata w
         \<and> (files w CachePath \<noteq> None \<longrightarrow>
               loadMetadata_part000 h cfg w = (Inr (), snd (getMetadataFile h cfg w)))"
proof (intro conjI allI impI)
  show "filter is_get (trace (snd (loadMetadata h cfg w))) = filter is_get (trace w)"
    using loadMetadata_try_no_get [of h w]
    by (auto simp add: loadMetadata_warm [OF assms] split: prod.splits sum.splits)
next
  fix md assume "access h = None \<and> readFile h MetadataPath = None \<and> JSON_parse_metadata h txt = Inr md"
  then show "loadMetadata h cfg w =
      (Inr (), w\<lparr>emojiMetadata := Some md, trace := trace w @ [Ev_access MetadataPath, Ev_readFile MetadataPath]\<rparr>)"
    using loadMetadata_try_ok [OF assms, of h md] by (simp add: loadMetadata_warm [OF assms])
next
  assume "fst (loadMetadata h cfg w) = Inr ()"
  then show "\<exists>md. JSON_parse_metadata h txt = Inr md \<and> emojiMetadata (snd (loadMetadata h cfg w)) = Some md"
    using loadMetadata_try_success [OF assms, of h]
    by (auto simp add: loadMetadata_warm [OF assms] split: prod.splits sum.splits)
next
  assume "fst (loadMetadata h cfg w) \<noteq> Inr ()"
  then show "emojiMetadata (snd (loadMetadata h cfg w)) = emojiMetadata w"
    using loadMetadata_try_failure [of h w]
    by (auto simp add: loadMetadata_warm [OF assms] split: prod.splits sum.splits)
next
  assume "fst (loadMetadata h cfg w) \<noteq> Inr ()"
  then show "\<exists>m. fst (loadMetadata h cfg w) = Inl (new_Error (Txt_LoadFailed m))"
    by (auto simp add: loadMetadata_warm [OF assms] split: prod.splits sum.splits)
next
  show "emojiMetadata (snd (loadMetadata_part000 h cfg w)) = emojiMetadata w"
    by (rule loadMetadata_part000_store)
next
  assume "files w CachePath \<noteq> None"
  then show "loadMetadata_part000 h cfg w = (Inr (), snd (getMetadataFile h cfg w))"
    using assms by (simp add: loadMetadata_part000_def split: prod.splits)
qed

theorem warm_start_index_ts_witness:
  "files (fx_world fx_both_files) MetadataPath = Some ''{}''
   \<and> loadMetadata (fx_host fx_doc (fx_response 200 (Some ''{}''))) fx_config (fx_world fx_both_files) =
       (Inr (), (fx_world fx_both_files)\<lparr>emojiMetadata := Some fx_doc,
                  trace := [Ev_access MetadataPath, Ev_readFile MetadataPath]\<rparr>)
   \<and> filter is_get (trace (snd (loadMetadata (fx_host fx_doc (fx_response 200 (Some ''{}''))) fx_config
         (fx_world fx_both_files)))) = []"
proof -
  let ?H = "fx_host fx_doc (fx_response 200 (Some ''{}''))"
  let ?W = "fx_world fx_both_files"
  have f: "files ?W MetadataPath = Some ''{}''"
    by (simp add: fx_world_def fx_both_files_def)
  have ok: "access ?H = None \<and> readFile ?H MetadataPath = None \<and> JSON_parse_metadata ?H ''{}'' = Inr fx_doc"
    by (simp add: fx_host_def)
  note on = warm_start_index_ts [OF f, of ?H fx_config]
  have l: "loadMetadata ?H fx_config ?W =
      (Inr (), ?W\<lparr>emojiMetadata := Some fx_doc,
                 trace := trace ?W @ [Ev_access MetadataPath, Ev_readFile MetadataPath]\<rparr>)"
    using on ok by blast
  have t: "trace ?W = []"
    by (simp add: fx_world_def)
  show ?thesis
    using f l t by simp
qed

text \<open>
  The claim as stated fails on the second source file: with both files present its
  \<open>loadMetadata\<close> sends a request and leaves the store unloaded.
\<close>

theorem warm_start_part000_fetches:
  "files (fx_world fx_both_files) MetadataPath = Some ''{}''
   \<and> filter is_get (trace (snd (loadMetadata_part000 (fx_host fx_doc (fx_response 304 None)) fx_config
         (fx_world fx_both_files)))) =
       [Ev_get (build_request fx_config \<lparr>etag = None, lastModified = None\<rparr>)]
   \<and> emojiMetadata (snd (loadMetadata_part000 (fx_host fx_doc (fx_response 304 None)) fx_config
         (fx_world fx_both_files))) = None"
proof -
  let ?H = "fx_host fx_doc (fx_response 304 None)"
  let ?W = "fx_world fx_both_files"
  let ?E = "\<lparr>etag = None, lastModified = None\<rparr>"
  have f: "files ?W MetadataPath = Some ''{}''" "files ?W CachePath = Some ''{}''"
    by (simp_all add: fx_world_def fx_both_files_def)
  have g: "getMetadataFile ?H fx_config ?W =
      (False, ?W\<lparr>trace := trace ?W @ [Ev_mkdir, Ev_readFile CachePath, Ev_get (build_request fx_config ?E)]\<rparr>)"
    by (rule getFile_304 [where resp = "fx_response 304 None"])
       (simp_all add: fx_host_simps fx_read_both fx_response_simps)
  have l: "loadMetadata_part000 ?H fx_config ?W =
      (Inr (), ?W\<lparr>trace := trace ?W @ [Ev_mkdir, Ev_readFile CachePath, Ev_get (build_request fx_config ?E)]\<rparr>)"
    using f g by (simp add: loadMetadata_part000_def)
  show ?thesis
    unfolding l using f by (simp add: fx_world_def)
qed

lemma loadMetadata_cold:
  assumes "files w MetadataPath = None" and "downloadMetadata h cfg w = (Inr True, w')"
  shows "loadMetadata h cfg w = (Inr (), start_loadMetadata w')"
  using assms by (simp add: loadMetadata_def)

lemma apply_plugin_ok:
  assumes "loadMetadata h cfg w = (Inr (), w')"
  shows "apply_plugin h cfg w =
     (Inr (), w'\<lparr>interval := (if autoUpdate cfg then Some (updateInterval cfg * 1000) else None),
                 commands := [''emoji.update'', ''emoji'']\<rparr>)"
  using assms by (simp add: apply_plugin_def)

lemma fx_cold_download:
  assumes "body \<noteq> []"
  shows "downloadMetadata (fx_host fx_doc (fx_response 200 (Some body))) fx_config (fx_world fx_no_files) =
     (Inr True,
      (fx_world fx_no_files)\<lparr>files := (files (fx_world fx_no_files))(MetadataPath \<mapsto> body, CachePath \<mapsto> ''etag:v1''),
         trace := trace (fx_world fx_no_files) @
           [Ev_mkdir, Ev_readFile CachePath, Ev_get (build_request fx_config \<lparr>etag = None, lastModified = None\<rparr>),
            Ev_writeFile MetadataPath body, Ev_writeFile CachePath ''etag:v1'']\<rparr>)"
  by (rule download_updated [where resp = "fx_response 200 (Some body)"])
     (simp_all add: assms fx_host_simps fx_read_none fx_response_simps fx_headers_def fx_stringify_def)

lemma fx_cold_apply:
  assumes "body \<noteq> []"
  shows "apply_plugin (fx_host fx_doc (fx_response 200 (Some body))) fx_config (fx_world fx_no_files) =
     (Inr (),
      \<lparr>files = fx_no_files(MetadataPath \<mapsto> body, CachePath \<mapsto> ''etag:v1''),
       emojiMetadata = None,
       trace = [Ev_mkdir, Ev_readFile CachePath, Ev_get (build_request fx_config \<lparr>etag = None, lastModified = None\<rparr>),
                Ev_writeFile MetadataPath body, Ev_writeFile CachePath ''etag:v1'', Ev_access MetadataPath],
       detached = [Call_loadMetadata],
       interval = Some 86400000,
       commands = [''emoji.update'', ''emoji'']\<rparr>)"
proof -
  have "files (fx_world fx_no_files) MetadataPath = None"
    by (simp add: fx_world_def fx_no_files_def)
  from apply_plugin_ok [OF loadMetadata_cold [OF this fx_cold_download [OF assms]]]
  show ?thesis by (simp add: start_loadMetadata_def emit_def fx_world_def fx_config_def)
qed

lemma fx_detached_load:
  "emojiMetadata (run_detached (fx_host fx_doc r) cfg
      \<lparr>files = fx_no_files(MetadataPath \<mapsto> body, CachePath \<mapsto> c), emojiMetadata = None, trace = t,
       detached = [Call_loadMetadata], interval = i, commands = cs\<rparr>) =
   (if body = ''{}'' then Some fx_doc else None)"
  by (simp add: run_detached_def loadMetadata_after_access_def Let_def emit_def fx_host_def
      setEmojiMetadata_def)

text \<open>
  Claim C2, on a cold start of index.ts.  The metadata file is missing, the server
  answers with status 200 and a body, the download succeeds.  \<open>apply\<close> awaits
  \<open>loadMetadata\<close>, which returns without error after starting the second
  \<open>loadMetadata\<close> call that nobody awaits (line 130): at that moment the store is
  still unloaded and a query raises "the metadata is not loaded".  When the body is not
  JSON the started call fails, no caller is told, and the store is never loaded; when the
  body parses, the store is loaded only once the started call has run.
\<close>

theorem cold_start_store_not_loaded:
  "files (fx_world fx_no_files) MetadataPath = None
   \<and> fst (apply_plugin (fx_host fx_doc (fx_response 200 (Some ''not json''))) fx_config (fx_world fx_no_files)) = Inr ()
   \<and> emojiMetadata (snd (apply_plugin (fx_host fx_doc (fx_response 200 (Some ''not json''))) fx_config
         (fx_world fx_no_files))) = None
   \<and> getEmojiData (emojiMetadata (snd (apply_plugin (fx_host fx_doc (fx_response 200 (Some ''not json''))) fx_config
         (fx_world fx_no_files)))) ''1f602'' = Inl (new_Error Txt_NotLoaded)
   \<and> detached (snd (apply_plugin (fx_host fx_doc (fx_response 200 (Some ''not json''))) fx_config
         (fx_world fx_no_files))) = [Call_loadMetadata]
   \<and> emojiMetadata (run_detached (fx_host fx_doc (fx_response 200 (Some ''not json''))) fx_config
         (snd (apply_plugin (fx_host fx_doc (fx_response 200 (Some ''not json''))) fx_config
            (fx_world fx_no_files)))) = None
   \<and> getSupportedEmoji (emojiMetadata (run_detached (fx_host fx_doc (fx_response 200 (Some ''not json''))) fx_config
         (snd (apply_plugin (fx_host fx_doc (fx_response 200 (Some ''not json''))) fx_config
            (fx_world fx_no_files))))) = Inl (new_Error Txt_NotLoaded)
   \<and> fst (apply_plugin (fx_host fx_doc (fx_response 200 (Some ''{}''))) fx_config (fx_world fx_no_files)) = Inr ()
   \<and> emojiMetadata (snd (apply_plugin (fx_host fx_doc (fx_response 200 (Some ''{}''))) fx_config
         (fx_world fx_no_files))) = None
   \<and> emojiMetadata (run_detached (fx_host fx_doc (fx_response 200 (Some ''{}''))) fx_config
         (snd (apply_plugin (fx_host fx_doc (fx_response 200 (Some ''{}''))) fx_config
            (fx_world fx_no_files)))) = Some fx_doc"
proof -
  have a: "''not json'' \<noteq> []" and b: "''{}'' \<noteq> []"
    by simp_all
  show ?thesis
    unfolding fx_cold_apply [OF a] fx_cold_apply [OF b]
    by (simp add: fx_detached_load getEmojiData_def getSupportedEmoji_def)
       (simp add: fx_world_def fx_no_files_def)
qed

end
